theory Spec2Isabelle
  imports Complex_Main "HOL-Library.Word" "HOL-Library.Log_Nat"
begin

section \<open>Values received from the client\<close>

text \<open>
  Request bodies are JSON. A decoded JSON value is one of Python's \<open>None\<close>, \<open>bool\<close>,
  \<open>int\<close>, \<open>float\<close>, \<open>str\<close>, \<open>list\<close> or \<open>dict\<close>. Python's unbounded \<open>int\<close> is
  \<open>int\<close>; a \<open>float\<close> is the real number it denotes (finite values only); a \<open>str\<close> is a \<open>string\<close> with one character per code point (code
  points below 256); a \<open>dict\<close> is an association list with distinct keys.
\<close>

datatype json =
    JNull
  | JBool bool
  | JInt int
  | JFloat real
  | JStr string
  | JArr "json list"
  | JObj "(string \<times> json) list"

text \<open>Python's truth value of an object (\<open>bool(v)\<close>, \<open>v or d\<close>, \<open>not v\<close>).\<close>

fun truthy :: "json \<Rightarrow> bool" where
  "truthy JNull = False"
| "truthy (JBool b) = b"
| "truthy (JInt i) = (i \<noteq> 0)"
| "truthy (JFloat r) = (r \<noteq> 0)"
| "truthy (JStr s) = (s \<noteq> [])"
| "truthy (JArr xs) = (xs \<noteq> [])"
| "truthy (JObj kvs) = (kvs \<noteq> [])"

text \<open>\<open>d.get(k)\<close> (\<open>None\<close> when the key is missing) and \<open>d.get(k, default)\<close>.\<close>

definition dict_get :: "(string \<times> json) list \<Rightarrow> string \<Rightarrow> json" where
  "dict_get d k = (case map_of d k of None \<Rightarrow> JNull | Some v \<Rightarrow> v)"

definition dict_get_default :: "(string \<times> json) list \<Rightarrow> string \<Rightarrow> json \<Rightarrow> json" where
  "dict_get_default d k dflt = (case map_of d k of None \<Rightarrow> dflt | Some v \<Rightarrow> v)"

text \<open>\<open>a or b\<close>.\<close>

definition py_or :: "json \<Rightarrow> json \<Rightarrow> json" where
  "py_or a b = (if truthy a then a else b)"

subsection \<open>Exceptions and built-in conversions\<close>

datatype py_exn = RuntimeError | TypeError | UnicodeEncodeError | OverflowError

text \<open>
  What the interpreter does and this repository does not define is a parameter of the
  model: \<open>int(s)\<close> and \<open>float(s)\<close> on a \<open>str\<close> (\<open>None\<close> stands for \<open>ValueError\<close>),
  \<open>str(v)\<close> on a float, a list or a dict, and the exception, if any, that the float
  arithmetic of a population variance raises on a list of samples (\<open>OverflowError\<close>
  from \<open>** 2\<close> when a squared deviation leaves the float range).
\<close>

record py_builtins =
  int_of_str :: "string \<Rightarrow> int option"
  float_of_str :: "string \<Rightarrow> real option"
  str_of_other :: "json \<Rightarrow> string"
  variance_error :: "real list \<Rightarrow> py_exn option"

text \<open>\<open>int(x)\<close> on a float truncates towards zero.\<close>

definition int_of_float :: "real \<Rightarrow> int" where
  "int_of_float x = (if 0 \<le> x then \<lfloor>x\<rfloor> else \<lceil>x\<rceil>)"

subsection \<open>Float arithmetic\<close>

text \<open>Python's \<open>round(x)\<close> on a float: the nearest integer, ties to the even one.\<close>

definition py_round :: "real \<Rightarrow> int" where
  "py_round x =
     (let f = \<lfloor>x\<rfloor>
      in if x - real_of_int f < 1 / 2 then f
         else if x - real_of_int f > 1 / 2 then f + 1
         else if even f then f else f + 1)"

text \<open>
  A Python float is an IEEE 754 binary64 number: 53 significant bits. \<open>pow2 e\<close> is
  \<open>2\<close> to the power \<open>e\<close>; \<open>double_exponent x\<close> is the \<open>e\<close> with
  \<open>2^e \<le> |x| < 2^(e+1)\<close>; \<open>double_round x\<close> is the multiple of \<open>2^(e-52)\<close> nearest to
  \<open>x\<close>, ties to the even multiple, which is the result the interpreter stores for an
  operation whose exact result is \<open>x\<close> (in the normal range and below the overflow
  threshold).
\<close>

definition pow2 :: "int \<Rightarrow> real" where
  "pow2 e = (if 0 \<le> e then 2 ^ nat e else 1 / 2 ^ nat (- e))"

definition double_exponent :: "real \<Rightarrow> int" where
  "double_exponent x =
     (if 1 \<le> \<bar>x\<bar> then bitlen \<lfloor>\<bar>x\<bar>\<rfloor> - 1 else - bitlen (\<lceil>1 / \<bar>x\<bar>\<rceil> - 1))"

definition double_round :: "real \<Rightarrow> real" where
  "double_round x =
     (if x = 0 then 0
      else (let ulp = pow2 (double_exponent x - 52)
            in real_of_int (py_round (x / ulp)) * ulp))"

definition is_double :: "real \<Rightarrow> bool" where
  "is_double x \<longleftrightarrow> double_round x = x"

text \<open>
  \<open>float(i)\<close> on an \<open>int\<close>: the nearest float, \<open>OverflowError\<close> when that is
  \<open>2^1024\<close> or more in magnitude.
\<close>

definition float_of_int :: "int \<Rightarrow> py_exn + real" where
  "float_of_int i =
     (if \<bar>double_round (real_of_int i)\<bar> < 2 ^ 1024
      then Inr (double_round (real_of_int i))
      else Inl OverflowError)"

text \<open>Decimal rendering of an integer, as \<open>str(i)\<close> and an f-string field produce it.\<close>

definition digit_char :: "nat \<Rightarrow> char" where
  "digit_char d = ''0123456789'' ! d"

fun str_nat :: "nat \<Rightarrow> string" where
  "str_nat n = (if n < 10 then [digit_char n] else str_nat (n div 10) @ [digit_char (n mod 10)])"

definition str_int :: "int \<Rightarrow> string" where
  "str_int i = (if i < 0 then CHR ''-'' # str_nat (nat (- i)) else str_nat (nat i))"

text \<open>\<open>str(v)\<close>.\<close>

definition py_str :: "py_builtins \<Rightarrow> json \<Rightarrow> string" where
  "py_str B v =
     (case v of
        JStr s \<Rightarrow> s
      | JInt i \<Rightarrow> str_int i
      | JBool b \<Rightarrow> (if b then ''True'' else ''False'')
      | JNull \<Rightarrow> ''None''
      | _ \<Rightarrow> str_of_other B v)"

text \<open>
  \<open>int(v)\<close> and \<open>float(v)\<close>; \<open>None\<close> stands for the \<open>TypeError\<close>, \<open>ValueError\<close> or
  \<open>OverflowError\<close> raised.
\<close>

definition py_int :: "py_builtins \<Rightarrow> json \<Rightarrow> int option" where
  "py_int B v =
     (case v of
        JInt i \<Rightarrow> Some i
      | JBool b \<Rightarrow> Some (if b then 1 else 0)
      | JFloat r \<Rightarrow> Some (int_of_float r)
      | JStr s \<Rightarrow> int_of_str B s
      | _ \<Rightarrow> None)"

definition py_float :: "py_builtins \<Rightarrow> json \<Rightarrow> real option" where
  "py_float B v =
     (case v of
        JInt i \<Rightarrow> (case float_of_int i of Inr r \<Rightarrow> Some r | Inl e \<Rightarrow> None)
      | JBool b \<Rightarrow> Some (if b then 1 else 0)
      | JFloat r \<Rightarrow> Some r
      | JStr s \<Rightarrow> float_of_str B s
      | _ \<Rightarrow> None)"

text \<open>\<open>s.lower()\<close> on code points below 256: A-Z and the Latin-1 capitals.\<close>

definition lower_char :: "char \<Rightarrow> char" where
  "lower_char c =
     (let n = of_char c :: nat
      in if (65 \<le> n \<and> n \<le> 90) \<or> (192 \<le> n \<and> n \<le> 222 \<and> n \<noteq> 215)
         then char_of (n + 32) else c)"

definition lower :: "string \<Rightarrow> string" where
  "lower s = map lower_char s"

text \<open>\<open>s.split("x", 1)\<close>: at most one split, at the first \<open>x\<close>.\<close>

definition split_x1 :: "string \<Rightarrow> string list" where
  "split_x1 s =
     (case dropWhile (\<lambda>c. c \<noteq> CHR ''x'') s of
        [] \<Rightarrow> [s]
      | _ # rest \<Rightarrow> [takeWhile (\<lambda>c. c \<noteq> CHR ''x'') s, rest])"

section \<open>Telemetry (fingerprint.py)\<close>

record TrajectoryPoint =
  p_timestamp :: int
  p_value :: real
  p_delta :: real
  p_velocity :: real
  p_time_delta_ms :: int

record BehaviorData =
  start_time :: int
  end_time :: int
  total_duration_ms :: int
  event_count :: int
  mouse_down_count :: int
  mouse_move_count :: int
  events :: "json list"

record CaptchaSession =
  solved_value :: int
  fingerprint :: "(string \<times> json) list option"
  trajectory :: "TrajectoryPoint list option"
  behavior :: "BehaviorData option"

text \<open>
  \<open>parse_trajectory\<close>: anything but a list gives the empty list; of the first 600
  elements, those that are not dicts or whose fields do not convert are skipped.
\<close>

definition parse_point :: "py_builtins \<Rightarrow> json \<Rightarrow> TrajectoryPoint option" where
  "parse_point B point =
     (case point of
        JObj d \<Rightarrow>
          (case py_int B (dict_get_default d ''timestamp'' (JInt 0)) of None \<Rightarrow> None
           | Some ts \<Rightarrow>
          (case py_float B (dict_get_default d ''value'' (JInt 0)) of None \<Rightarrow> None
           | Some v \<Rightarrow>
          (case py_float B (dict_get_default d ''delta'' (JInt 0)) of None \<Rightarrow> None
           | Some dl \<Rightarrow>
          (case py_float B (dict_get_default d ''velocity'' (JInt 0)) of None \<Rightarrow> None
           | Some vel \<Rightarrow>
          (case py_int B (dict_get_default d ''time_delta_ms'' (JInt 0)) of None \<Rightarrow> None
           | Some td \<Rightarrow>
             Some \<lparr>p_timestamp = ts, p_value = v, p_delta = dl, p_velocity = vel,
                   p_time_delta_ms = max 0 td\<rparr>)))))
      | _ \<Rightarrow> None)"

definition parse_trajectory :: "py_builtins \<Rightarrow> json \<Rightarrow> TrajectoryPoint list" where
  "parse_trajectory B t =
     (case t of
        JArr pts \<Rightarrow> List.map_filter (parse_point B) (take 600 pts)
      | _ \<Rightarrow> [])"

text \<open>
  \<open>parse_behavior\<close>: anything but a dict gives \<open>None\<close>, as does a field that does not
  convert; counters are clamped at 0.
\<close>

definition behavior_int :: "py_builtins \<Rightarrow> (string \<times> json) list \<Rightarrow> string \<Rightarrow> int option" where
  "behavior_int B d k = py_int B (py_or (dict_get_default d k (JInt 0)) (JInt 0))"

definition parse_behavior :: "py_builtins \<Rightarrow> json \<Rightarrow> BehaviorData option" where
  "parse_behavior B b =
     (case b of
        JObj d \<Rightarrow>
          (case behavior_int B d ''start_time'' of None \<Rightarrow> None | Some st \<Rightarrow>
          (case behavior_int B d ''end_time'' of None \<Rightarrow> None | Some en \<Rightarrow>
          (case behavior_int B d ''total_duration_ms'' of None \<Rightarrow> None | Some du \<Rightarrow>
          (case behavior_int B d ''event_count'' of None \<Rightarrow> None | Some ec \<Rightarrow>
          (case behavior_int B d ''mouse_down_count'' of None \<Rightarrow> None | Some md \<Rightarrow>
          (case behavior_int B d ''mouse_move_count'' of None \<Rightarrow> None | Some mm \<Rightarrow>
             Some \<lparr>start_time = st, end_time = en, total_duration_ms = max 0 du,
                   event_count = max 0 ec, mouse_down_count = max 0 md,
                   mouse_move_count = max 0 mm,
                   events = (case dict_get d ''events'' of JArr es \<Rightarrow> es | _ \<Rightarrow> [])\<rparr>))))))
      | _ \<Rightarrow> None)"

section \<open>Risk analyzer (fingerprint.py)\<close>

text \<open>
  \<open>analyze_bot_risk\<close> keeps two locals, the list \<open>flags\<close> and the integer \<open>score\<close>.
  Every rule of the source is the pair of statements \<open>flags.append(name); score -= pts\<close>
  under a condition; \<open>flag_rule\<close> is that pair, on the state \<open>(flags, score)\<close>.
\<close>

type_synonym risk_acc = "string list \<times> int"

definition flag_rule :: "bool \<Rightarrow> string \<Rightarrow> int \<Rightarrow> risk_acc \<Rightarrow> risk_acc" where
  "flag_rule c name pts a = (if c then (fst a @ [name], snd a - pts) else a)"

text \<open>
  The \<open>try\<close> block on \<open>screen_resolution\<close>: the parts of \<open>split("x", 1)\<close> converted
  by \<open>int\<close> and unpacked into exactly two names; \<open>None\<close> is the \<open>except\<close> branch.
\<close>

definition parse_screen :: "py_builtins \<Rightarrow> string \<Rightarrow> (int \<times> int) option" where
  "parse_screen B screen_resolution =
     (case map (int_of_str B) (split_x1 (lower screen_resolution)) of
        [Some screen_w, Some screen_h] \<Rightarrow> Some (screen_w, screen_h)
      | _ \<Rightarrow> None)"

definition fingerprint_rules ::
  "py_builtins \<Rightarrow> (string \<times> json) list option \<Rightarrow> risk_acc \<Rightarrow> risk_acc" where
  "fingerprint_rules B session_fingerprint a =
     (case session_fingerprint of
        Some (kv # kvs) \<Rightarrow>
          (let fp = kv # kvs;
               user_agent = py_str B (py_or (dict_get fp ''user_agent'') (JStr []));
               a1 = flag_rule (length user_agent < 20) ''suspicious_user_agent'' 20 a;
               screen_resolution =
                 py_str B (py_or (dict_get fp ''screen_resolution'') (JStr []));
               a2 = (case parse_screen B screen_resolution of
                       Some (screen_w, screen_h) \<Rightarrow>
                         flag_rule (screen_w \<le> 0 \<or> screen_h \<le> 0)
                           ''invalid_screen_resolution'' 15 a1
                     | None \<Rightarrow> flag_rule True ''invalid_screen_resolution'' 15 a1);
               a3 = flag_rule (truthy (dict_get fp ''webdriver'')) ''webdriver_detected'' 35 a2;
               a4 = flag_rule (\<not> truthy (dict_get fp ''timezone_name'')) ''missing_timezone'' 5 a3
           in flag_rule (\<not> truthy (dict_get fp ''canvas_fingerprint''))
                ''missing_canvas_fingerprint'' 10 a4)
      | _ \<Rightarrow> flag_rule True ''missing_fingerprint'' 30 a)"

text \<open>
  Population variance, as the source computes it for a non-empty list. It is taken here
  on the real numbers the samples denote: the rounding of the interpreter's float
  arithmetic is not reproduced in the threshold tests, and the case where that arithmetic
  raises is \<open>analysis_error\<close> below.
\<close>

definition variance :: "real list \<Rightarrow> real" where
  "variance xs =
     (let mean = sum_list xs / real (length xs)
      in sum_list (map (\<lambda>v. (v - mean) ^ 2) xs) / real (length xs))"

definition trajectory_rules :: "TrajectoryPoint list option \<Rightarrow> risk_acc \<Rightarrow> risk_acc" where
  "trajectory_rules session_trajectory a =
     (case session_trajectory of
        None \<Rightarrow> flag_rule True ''insufficient_trajectory_data'' 30 a
      | Some tr \<Rightarrow>
          if tr \<noteq> [] \<and> length tr \<ge> 4 then
            (let velocities = map p_velocity (filter (\<lambda>p. p_time_delta_ms p > 0) tr);
                 a1 = (if velocities \<noteq> []
                       then flag_rule (variance velocities < 0.003)
                              ''linear_velocity_pattern'' 20 a
                       else a);
                 non_zero_deltas = map (\<lambda>p. \<bar>p_delta p\<bar>) (filter (\<lambda>p. p_delta p \<noteq> 0) tr);
                 a2 = (if non_zero_deltas \<noteq> []
                       then flag_rule
                              (variance non_zero_deltas < 0.2 \<and> length non_zero_deltas \<ge> 4)
                              ''uniform_delta_pattern'' 15 a1
                       else a1);
                 unique_values = remdups (map (\<lambda>p. int_of_float (p_value p)) tr);
                 a3 = flag_rule (length unique_values < 4) ''low_slider_entropy'' 15 a2;
                 time_deltas = map p_time_delta_ms (filter (\<lambda>p. p_time_delta_ms p > 0) tr)
             in if time_deltas \<noteq> []
                then (let pauses = filter (\<lambda>d. d \<ge> 120) time_deltas
                      in flag_rule (length pauses = 0) ''no_movement_pauses'' 15 a3)
                else a3)
          else flag_rule True ''insufficient_trajectory_data'' 30 a)"

definition behavior_rules :: "BehaviorData option \<Rightarrow> risk_acc \<Rightarrow> risk_acc" where
  "behavior_rules session_behavior a =
     (case session_behavior of
        Some bh \<Rightarrow>
          (let duration = total_duration_ms bh;
               a1 = (if duration \<le> 0 then flag_rule True ''invalid_behavior_duration'' 20 a
                     else if duration < 300 then flag_rule True ''suspiciously_fast'' 25 a
                     else if duration < 700 then flag_rule True ''very_fast'' 10 a
                     else if duration > 45000 then flag_rule True ''suspiciously_slow'' 10 a
                     else a);
               a2 = flag_rule (mouse_down_count bh < 1) ''missing_mousedown'' 10 a1;
               a3 = (if mouse_move_count bh < 3
                     then flag_rule True ''insufficient_mouse_movement'' 20 a2
                     else if mouse_move_count bh < 8
                     then flag_rule True ''limited_mouse_movement'' 10 a2
                     else a2)
           in flag_rule (event_count bh < 3) ''low_event_count'' 10 a3)
      | None \<Rightarrow> flag_rule True ''missing_behavior_data'' 25 a)"

record risk_details =
  fingerprint_present :: bool
  trajectory_points :: nat
  details_total_duration_ms :: int
  movement_events :: int

record risk_analysis =
  is_bot :: bool
  confidence_score :: int
  flags :: "string list"
  details :: risk_details

definition risk_rules :: "py_builtins \<Rightarrow> CaptchaSession \<Rightarrow> risk_acc" where
  "risk_rules B session =
     behavior_rules (behavior session)
       (trajectory_rules (trajectory session)
          (fingerprint_rules B (fingerprint session) ([], 100)))"

definition analyze_bot_risk :: "py_builtins \<Rightarrow> CaptchaSession \<Rightarrow> risk_analysis" where
  "analyze_bot_risk B session =
     (let a = risk_rules B session;
          score = max 0 (min 100 (snd a))
      in \<lparr>is_bot = score < 60,
          confidence_score = score,
          flags = fst a,
          details =
            \<lparr>fingerprint_present = (fingerprint session \<noteq> None),
             trajectory_points =
               (case trajectory session of Some tr \<Rightarrow> length tr | None \<Rightarrow> 0),
             details_total_duration_ms =
               (case behavior session of Some bh \<Rightarrow> total_duration_ms bh | None \<Rightarrow> 0),
             movement_events =
               (case behavior session of Some bh \<Rightarrow> mouse_move_count bh | None \<Rightarrow> 0)\<rparr>\<rparr>)"

text \<open>
  The call of the analyzer as the verification handler experiences it. The result above
  is what \<open>analyze_bot_risk\<close> returns when it returns; it raises instead when the float
  arithmetic of one of the two variances does, the velocities first. Which lists make
  that arithmetic raise (a squared deviation that overflows) is the \<open>variance_error\<close> of
  the builtins. The telemetry floats are finite numbers; an infinity or a NaN in a
  trajectory is outside this model.
\<close>

definition analysis_error :: "py_builtins \<Rightarrow> CaptchaSession \<Rightarrow> py_exn option" where
  "analysis_error B session =
     (case trajectory session of
        None \<Rightarrow> None
      | Some tr \<Rightarrow>
          if tr \<noteq> [] \<and> length tr \<ge> 4 then
            (let velocities = map p_velocity (filter (\<lambda>p. p_time_delta_ms p > 0) tr);
                 non_zero_deltas = map (\<lambda>p. \<bar>p_delta p\<bar>) (filter (\<lambda>p. p_delta p \<noteq> 0) tr)
             in case (if velocities \<noteq> [] then variance_error B velocities else None) of
                  Some e \<Rightarrow> Some e
                | None \<Rightarrow>
                    if non_zero_deltas \<noteq> [] then variance_error B non_zero_deltas else None)
          else None)"

definition analyze_bot_risk_call ::
  "py_builtins \<Rightarrow> CaptchaSession \<Rightarrow> py_exn + risk_analysis" where
  "analyze_bot_risk_call B session =
     (case analysis_error B session of
        Some e \<Rightarrow> Inl e
      | None \<Rightarrow> Inr (analyze_bot_risk B session))"

text \<open>\<open>compute_pow_difficulty\<close>: the same analysis on a session with \<open>solved_value = 0\<close>.\<close>

record pow_difficulty =
  pd_difficulty :: int
  pd_risk_level :: string
  pd_score :: int
  pd_flags :: "string list"

definition compute_pow_difficulty ::
  "py_builtins \<Rightarrow> (string \<times> json) list option \<Rightarrow> TrajectoryPoint list option \<Rightarrow>
   BehaviorData option \<Rightarrow> pow_difficulty" where
  "compute_pow_difficulty B fp tr bh =
     (let session = \<lparr>solved_value = 0, fingerprint = fp, trajectory = tr, behavior = bh\<rparr>;
          result = analyze_bot_risk B session;
          score = confidence_score result;
          (risk_level, difficulty) =
            (if score \<ge> 70 then (''low'', 15)
             else if score \<ge> 40 then (''medium'', 19)
             else (''high'', 22))
      in \<lparr>pd_difficulty = difficulty, pd_risk_level = risk_level, pd_score = score,
          pd_flags = flags result\<rparr>)"

text \<open>The points each flag costs, read off the rules above.\<close>

definition penalty :: "string \<Rightarrow> int" where
  "penalty f =
     (if f = ''suspicious_user_agent'' then 20
      else if f = ''invalid_screen_resolution'' then 15
      else if f = ''webdriver_detected'' then 35
      else if f = ''missing_timezone'' then 5
      else if f = ''missing_canvas_fingerprint'' then 10
      else if f = ''missing_fingerprint'' then 30
      else if f = ''linear_velocity_pattern'' then 20
      else if f = ''uniform_delta_pattern'' then 15
      else if f = ''low_slider_entropy'' then 15
      else if f = ''no_movement_pauses'' then 15
      else if f = ''insufficient_trajectory_data'' then 30
      else if f = ''invalid_behavior_duration'' then 20
      else if f = ''suspiciously_fast'' then 25
      else if f = ''very_fast'' then 10
      else if f = ''suspiciously_slow'' then 10
      else if f = ''missing_mousedown'' then 10
      else if f = ''insufficient_mouse_movement'' then 20
      else if f = ''limited_mouse_movement'' then 10
      else if f = ''low_event_count'' then 10
      else if f = ''missing_behavior_data'' then 25
      else 0)"

section \<open>Keyframe positions (main.py)\<close>

text \<open>
  \<open>_generate_keyframe_positions\<close> draws from the random generator twice: once
  \<open>random.randint(3, 5)\<close>, here the argument \<open>num_interior\<close>, and in each of the up to
  200 rounds \<open>random.sample(range(1, 100), num_interior)\<close>, here \<open>draw i\<close> for round
  \<open>i\<close>. The loop returns the first candidate whose consecutive gaps are all at least
  \<open>MIN_GAP\<close>; \<open>None\<close> means the 200 rounds are used up.
\<close>

definition MIN_GAP :: int where
  "MIN_GAP = 8"

definition gaps_ok :: "int list \<Rightarrow> bool" where
  "gaps_ok positions =
     list_all (\<lambda>i. positions ! (i + 1) - positions ! i \<ge> MIN_GAP) [0..<length positions - 1]"

fun retry_keyframes :: "nat \<Rightarrow> (nat \<Rightarrow> int list) \<Rightarrow> nat \<Rightarrow> int list option" where
  "retry_keyframes 0 draw i = None"
| "retry_keyframes (Suc k) draw i =
     (let interior = sort (draw i);
          positions = [0] @ interior @ [100]
      in if gaps_ok positions then Some positions else retry_keyframes k draw (Suc i))"

definition fallback_keyframes :: "int \<Rightarrow> int list" where
  "fallback_keyframes num_interior =
     (let step = 100 div (num_interior + 1)
      in [0] @ map (\<lambda>i. step * i) [1..num_interior] @ [100])"

definition generate_keyframe_positions :: "int \<Rightarrow> (nat \<Rightarrow> int list) \<Rightarrow> int list" where
  "generate_keyframe_positions num_interior draw =
     (case retry_keyframes 200 draw 0 of
        Some positions \<Rightarrow> positions
      | None \<Rightarrow> fallback_keyframes num_interior)"

text \<open>
  What the specification calls evenly spaced: every consecutive gap equals the first.
\<close>

definition evenly_spaced :: "int list \<Rightarrow> bool" where
  "evenly_spaced positions =
     list_all (\<lambda>i. positions ! (i + 1) - positions ! i = positions ! 1 - positions ! 0)
       [0..<length positions - 1]"

section \<open>Proof of work (main.py)\<close>

text \<open>\<open>bytes.hex()\<close> and \<open>hexdigest()\<close>: two lowercase hexadecimal digits per byte.\<close>

definition hex_digit :: "nat \<Rightarrow> char" where
  "hex_digit d = ''0123456789abcdef'' ! d"

definition hex_byte :: "8 word \<Rightarrow> string" where
  "hex_byte b = [hex_digit (unat b div 16), hex_digit (unat b mod 16)]"

definition bytes_hex :: "8 word list \<Rightarrow> string" where
  "bytes_hex bs = concat (map hex_byte bs)"

text \<open>The 32 bytes of a 256-bit digest, most significant first.\<close>

definition digest_bytes :: "256 word \<Rightarrow> 8 word list" where
  "digest_bytes w = map (\<lambda>i. ucast (drop_bit (8 * (31 - i)) w)) [0..<32]"

definition hexdigest :: "256 word \<Rightarrow> string" where
  "hexdigest w = bytes_hex (digest_bytes w)"

text \<open>
  What the process holds besides its tables: the HMAC-SHA256 function of the standard
  library (\<open>hmac_sha256 key msg\<close> is the digest of
  \<open>hmac.new(key.encode(), msg.encode(), hashlib.sha256)\<close>), the secret key, and the
  native solver library loaded at import time (\<open>None\<close> when it has not been built).
  \<open>solve_challenge\<close> is called through ctypes with C \<open>int\<close> arguments and result.
\<close>

record pow_env =
  hmac_sha256 :: "string \<Rightarrow> string \<Rightarrow> 256 word"
  POW_SERVER_SECRET :: string
  native_solver :: "(string \<Rightarrow> 32 word \<Rightarrow> 32 word \<Rightarrow> 32 word \<Rightarrow> 32 word) option"

definition POW_CHALLENGE_TTL :: int where
  "POW_CHALLENGE_TTL = 300"

record PoWChallenge =
  pc_salt :: string
  pc_difficulty :: int
  pc_timestamp :: int
  pc_signature :: string

definition pow_payload :: "string \<Rightarrow> int \<Rightarrow> int \<Rightarrow> string" where
  "pow_payload salt difficulty timestamp =
     salt @ ''.'' @ str_int difficulty @ ''.'' @ str_int timestamp"

text \<open>
  \<open>generate_pow_challenge\<close>: \<open>random_bytes\<close> is the result of \<open>os.urandom(16)\<close> and
  \<open>now\<close> the reading of \<open>time.time()\<close>.
\<close>

definition generate_pow_challenge ::
  "pow_env \<Rightarrow> 8 word list \<Rightarrow> real \<Rightarrow> int \<Rightarrow> PoWChallenge" where
  "generate_pow_challenge env random_bytes now difficulty =
     (let salt = bytes_hex random_bytes;
          timestamp = int_of_float now;
          payload = pow_payload salt difficulty timestamp;
          signature = hexdigest (hmac_sha256 env (POW_SERVER_SECRET env) payload)
      in \<lparr>pc_salt = salt, pc_difficulty = difficulty, pc_timestamp = timestamp,
          pc_signature = signature\<rparr>)"

text \<open>
  \<open>hmac.compare_digest\<close> on two \<open>str\<close> arguments raises \<open>TypeError\<close> unless both are
  ASCII.
\<close>

definition is_ascii :: "string \<Rightarrow> bool" where
  "is_ascii s = list_all (\<lambda>c. (of_char c :: nat) < 128) s"

text \<open>Canonical lowercase hexadecimal.\<close>

definition is_lower_hex :: "string \<Rightarrow> bool" where
  "is_lower_hex s = list_all (\<lambda>c. c \<in> set ''0123456789abcdef'') s"

definition compare_digest :: "string \<Rightarrow> string \<Rightarrow> py_exn + bool" where
  "compare_digest a b = (if is_ascii a \<and> is_ascii b then Inr (a = b) else Inl TypeError)"

text \<open>
  \<open>_verify_pow_nonce\<close>: one iteration of the native solver from \<open>nonce\<close>; ctypes cuts
  the arguments to 32 bits and returns a signed 32-bit result, which is compared with
  the uncut \<open>nonce\<close>.
\<close>

definition verify_pow_nonce :: "pow_env \<Rightarrow> string \<Rightarrow> int \<Rightarrow> int \<Rightarrow> py_exn + bool" where
  "verify_pow_nonce env salt difficulty nonce =
     (case native_solver env of
        None \<Rightarrow> Inl RuntimeError
      | Some solve_challenge \<Rightarrow>
          if is_ascii salt
          then Inr (sint (solve_challenge salt (word_of_int difficulty) (word_of_int nonce) 1)
                      = nonce)
          else Inl UnicodeEncodeError)"

text \<open>The replay cache \<open>pow_used_nonces\<close>: key \<open>salt:nonce\<close> to expiry time.\<close>

type_synonym nonce_ledger = "string \<rightharpoonup> real"

definition purge_expired_nonces :: "real \<Rightarrow> nonce_ledger \<Rightarrow> nonce_ledger" where
  "purge_expired_nonces now ledger =
     (\<lambda>k. case ledger k of
             None \<Rightarrow> None
           | Some expiry \<Rightarrow> if expiry \<le> now then None else Some expiry)"

text \<open>
  \<open>verify_pow\<close> reads the clock three times: for the freshness check, inside
  \<open>_purge_expired_nonces\<close>, and when the nonce is burned.
\<close>

record pow_clock =
  t_fresh :: real
  t_purge :: real
  t_burn :: real

definition verify_pow ::
  "pow_env \<Rightarrow> pow_clock \<Rightarrow> nonce_ledger \<Rightarrow> string \<Rightarrow> int \<Rightarrow> int \<Rightarrow> string \<Rightarrow> int \<Rightarrow>
   (py_exn + string option) \<times> nonce_ledger" where
  "verify_pow env clock ledger salt difficulty timestamp signature nonce =
     (let payload = pow_payload salt difficulty timestamp;
          expected_sig = hexdigest (hmac_sha256 env (POW_SERVER_SECRET env) payload)
      in case compare_digest signature expected_sig of
           Inl e \<Rightarrow> (Inl e, ledger)
         | Inr same \<Rightarrow>
             if \<not> same then (Inr (Some ''Invalid PoW signature.''), ledger)
             else
               (let age = int_of_float (t_fresh clock) - timestamp
                in if age < 0 \<or> age > POW_CHALLENGE_TTL
                   then (Inr (Some ''PoW challenge expired.''), ledger)
                   else
                     (let ledger1 = purge_expired_nonces (t_purge clock) ledger;
                          replay_key = salt @ '':'' @ str_int nonce
                      in if ledger1 replay_key \<noteq> None
                         then (Inr (Some ''PoW nonce already used.''), ledger1)
                         else
                           (case verify_pow_nonce env salt difficulty nonce of
                              Inl e \<Rightarrow> (Inl e, ledger1)
                            | Inr ok \<Rightarrow>
                                if \<not> ok
                                then (Inr (Some ''PoW nonce does not satisfy difficulty target.''),
                                      ledger1)
                                else (Inr None,
                                      ledger1(replay_key \<mapsto>
                                        t_burn clock + real_of_int POW_CHALLENGE_TTL))))))"

section \<open>Verification endpoint (main.py)\<close>

text \<open>
  A video challenge as \<open>generate_video_captcha\<close> stores it; \<open>secret_target\<close> and
  \<open>current_slider\<close> are floats. The feather mask, an image array that verification never
  reads, is left out.
\<close>

record video_challenge =
  roi_true_x :: int
  roi_true_y :: int
  roi_start_x :: int
  roi_start_y :: int
  roi_size :: int
  secret_target :: real
  current_slider :: real

text \<open>The three module-level tables.\<close>

record server_state =
  captcha_sessions :: "string \<rightharpoonup> CaptchaSession"
  video_captcha_sessions :: "string \<rightharpoonup> video_challenge"
  pow_used_nonces :: nonce_ledger

text \<open>
  The body of \<open>POST /verify-captcha\<close>. \<open>None\<close> is a missing key or a JSON \<open>null\<close>. The
  fields the handler does not type-check are taken at the types its documentation gives
  them (\<open>captcha_id\<close>, \<open>pow_salt\<close> and \<open>pow_signature\<close> strings, \<open>slider_value\<close> and the
  other proof-of-work fields integers); \<open>mode\<close> and the telemetry, which the handler
  converts or type-checks itself, are arbitrary JSON values.
\<close>

record verify_request =
  req_captcha_id :: "string option"
  req_slider_value :: "int option"
  req_mode :: "json option"
  req_trajectory :: json
  req_behavior :: json
  req_fingerprint :: json
  req_pow_salt :: "string option"
  req_pow_nonce :: "int option"
  req_pow_difficulty :: "int option"
  req_pow_timestamp :: "int option"
  req_pow_signature :: "string option"

text \<open>
  The two shapes of the handler's answer: \<open>{"success": False, "error": e}\<close> and
  \<open>{"success": s, "analysis": a}\<close>.
\<close>

datatype verify_response =
    Resp_error string
  | Resp_analysis bool risk_analysis

definition response_success :: "verify_response \<Rightarrow> bool" where
  "response_success r = (case r of Resp_error e \<Rightarrow> False | Resp_analysis s a \<Rightarrow> s)"



text \<open>
  The session the video branch builds for the risk analyzer: \<open>target * 1000\<close> is a float
  product, rounded as the interpreter rounds it, and \<open>int\<close> truncates the result.
\<close>

definition video_temp_session ::
  "real \<Rightarrow> (string \<times> json) list option \<Rightarrow> TrajectoryPoint list \<Rightarrow> BehaviorData option \<Rightarrow>
   CaptchaSession" where
  "video_temp_session target fp parsed_trajectory parsed_behavior =
     \<lparr>solved_value = int_of_float (double_round (target * 1000)),
      fingerprint = fp,
      trajectory = Some parsed_trajectory,
      behavior = parsed_behavior\<rparr>"

text \<open>
  The slider answer check of video mode, after the proof-of-work gate, with the analyzer
  it calls as an argument. \<open>float(slider_value)\<close> can raise, and so can the analyzer;
  either exception leaves the handler before anything is removed. The division, the
  subtraction and the literal \<open>0.03\<close> are floats.
\<close>

definition verify_video_with ::
  "(CaptchaSession \<Rightarrow> py_exn + risk_analysis) \<Rightarrow> server_state \<Rightarrow> string \<Rightarrow> int \<Rightarrow>
   (string \<times> json) list option \<Rightarrow> TrajectoryPoint list \<Rightarrow> BehaviorData option \<Rightarrow>
   (py_exn + verify_response) \<times> server_state" where
  "verify_video_with analyze st cid slider fp parsed_trajectory parsed_behavior =
     (case video_captcha_sessions st cid of
        None \<Rightarrow> (Inr (Resp_error ''Invalid or expired captcha_id.''), st)
      | Some challenge \<Rightarrow>
          (case float_of_int slider of
             Inl e \<Rightarrow> (Inl e, st)
           | Inr slider_float \<Rightarrow>
               (let submitted_val = max 0 (min 1 (double_round (slider_float / 1000)));
                    target = secret_target challenge;
                    temp_session =
                      video_temp_session target fp parsed_trajectory parsed_behavior
                in case analyze temp_session of
                     Inl e \<Rightarrow> (Inl e, st)
                   | Inr bot_analysis \<Rightarrow>
                       (let slider_ok =
                              (\<bar>double_round (target - submitted_val)\<bar> \<le> double_round (3 / 100));
                            success = (slider_ok \<and> \<not> is_bot bot_analysis)
                        in (Inr (Resp_analysis success bot_analysis),
                            if success
                            then st\<lparr>video_captcha_sessions :=
                                      (video_captcha_sessions st)(cid := None)\<rparr>
                            else st)))))"

definition verify_video ::
  "py_builtins \<Rightarrow> server_state \<Rightarrow> string \<Rightarrow> int \<Rightarrow> (string \<times> json) list option \<Rightarrow>
   TrajectoryPoint list \<Rightarrow> BehaviorData option \<Rightarrow>
   (py_exn + verify_response) \<times> server_state" where
  "verify_video B = verify_video_with (analyze_bot_risk_call B)"

text \<open>
  The slider answer check of image mode. The session is popped before it is looked at;
  the telemetry of the request is then attached to it (the trajectory only when the
  parsed list is not empty, the behavior only when it parsed). An exception of the
  analyzer leaves the handler with the session already popped.
\<close>

definition attach_telemetry ::
  "CaptchaSession \<Rightarrow> (string \<times> json) list option \<Rightarrow> TrajectoryPoint list \<Rightarrow>
   BehaviorData option \<Rightarrow> CaptchaSession" where
  "attach_telemetry session0 fp parsed_trajectory parsed_behavior =
     (let session1 = session0\<lparr>fingerprint := fp\<rparr>;
          session2 = (if parsed_trajectory \<noteq> []
                      then session1\<lparr>trajectory := Some parsed_trajectory\<rparr>
                      else session1)
      in case parsed_behavior of
           Some b \<Rightarrow> session2\<lparr>behavior := Some b\<rparr>
         | None \<Rightarrow> session2)"

definition verify_image ::
  "py_builtins \<Rightarrow> server_state \<Rightarrow> string \<Rightarrow> int \<Rightarrow> (string \<times> json) list option \<Rightarrow>
   TrajectoryPoint list \<Rightarrow> BehaviorData option \<Rightarrow>
   (py_exn + verify_response) \<times> server_state" where
  "verify_image B st cid slider fp parsed_trajectory parsed_behavior =
     (let st1 = st\<lparr>captcha_sessions := (captcha_sessions st)(cid := None)\<rparr>
      in case captcha_sessions st cid of
           None \<Rightarrow> (Inr (Resp_error ''Invalid or expired captcha_id.''), st1)
         | Some session0 \<Rightarrow>
             (let session = attach_telemetry session0 fp parsed_trajectory parsed_behavior;
                  puzzle_solved = (\<bar>slider - solved_value session\<bar> \<le> 3)
              in case analyze_bot_risk_call B session of
                   Inl e \<Rightarrow> (Inl e, st1)
                 | Inr bot_analysis \<Rightarrow>
                     (let success = (puzzle_solved \<and> \<not> is_bot bot_analysis)
                      in (Inr (Resp_analysis success bot_analysis), st1))))"

text \<open>The fields the handler extracts first: the mode and the fingerprint.\<close>

definition request_mode :: "py_builtins \<Rightarrow> verify_request \<Rightarrow> string" where
  "request_mode B body =
     lower (py_str B (case req_mode body of None \<Rightarrow> JStr ''image'' | Some m \<Rightarrow> m))"

definition request_fingerprint :: "verify_request \<Rightarrow> (string \<times> json) list option" where
  "request_fingerprint body = (case req_fingerprint body of JObj d \<Rightarrow> Some d | _ \<Rightarrow> None)"

text \<open>
  The proof-of-work gate: \<open>None\<close> when one of the five fields is missing, otherwise the
  outcome of \<open>verify_pow\<close> and the ledger it leaves.
\<close>

definition pow_gate ::
  "pow_env \<Rightarrow> pow_clock \<Rightarrow> server_state \<Rightarrow> verify_request \<Rightarrow>
   ((py_exn + string option) \<times> nonce_ledger) option" where
  "pow_gate env clock st body =
     (case (req_pow_salt body, req_pow_nonce body, req_pow_difficulty body,
            req_pow_timestamp body, req_pow_signature body) of
        (Some salt, Some nonce, Some difficulty, Some timestamp, Some signature) \<Rightarrow>
          Some (verify_pow env clock (pow_used_nonces st)
                  salt difficulty timestamp signature nonce)
      | _ \<Rightarrow> None)"

text \<open>The answer check of the request's mode.\<close>

definition answer_check ::
  "py_builtins \<Rightarrow> server_state \<Rightarrow> verify_request \<Rightarrow> string \<Rightarrow> int \<Rightarrow>
   (py_exn + verify_response) \<times> server_state" where
  "answer_check B st body cid slider =
     (let fp = request_fingerprint body;
          parsed_trajectory = parse_trajectory B (req_trajectory body);
          parsed_behavior = parse_behavior B (req_behavior body)
      in if request_mode B body = ''video''
         then verify_video B st cid slider fp parsed_trajectory parsed_behavior
         else verify_image B st cid slider fp parsed_trajectory parsed_behavior)"

text \<open>
  \<open>verify_captcha\<close>: field checks, the proof-of-work gate, then the answer check. An
  exception raised inside \<open>verify_pow\<close> or the answer check leaves the handler.
\<close>

definition verify_captcha ::
  "pow_env \<Rightarrow> py_builtins \<Rightarrow> pow_clock \<Rightarrow> server_state \<Rightarrow> verify_request \<Rightarrow>
   (py_exn + verify_response) \<times> server_state" where
  "verify_captcha env B clock st body =
     (case (req_captcha_id body, req_slider_value body) of
        (Some cid, Some slider) \<Rightarrow>
          (case pow_gate env clock st body of
             None \<Rightarrow> (Inr (Resp_error ''Missing PoW fields.''), st)
           | Some (Inl e, ledger) \<Rightarrow> (Inl e, st\<lparr>pow_used_nonces := ledger\<rparr>)
           | Some (Inr (Some pow_error), ledger) \<Rightarrow>
               (Inr (Resp_error pow_error), st\<lparr>pow_used_nonces := ledger\<rparr>)
           | Some (Inr None, ledger) \<Rightarrow>
               answer_check B (st\<lparr>pow_used_nonces := ledger\<rparr>) body cid slider)
      | _ \<Rightarrow> (Inr (Resp_error ''Missing captcha_id or slider_value.''), st))"

section \<open>Auxiliary notions for the proofs\<close>

text \<open>
  The position of each flag in the order in which \<open>analyze_bot_risk\<close> can append it
  (alternatives of one \<open>if\<close>/\<open>elif\<close> chain get consecutive positions).
\<close>

definition flag_rank :: "string \<Rightarrow> nat" where
  "flag_rank f =
     (if f = ''suspicious_user_agent'' then 1
      else if f = ''invalid_screen_resolution'' then 2
      else if f = ''webdriver_detected'' then 3
      else if f = ''missing_timezone'' then 4
      else if f = ''missing_canvas_fingerprint'' then 5
      else if f = ''missing_fingerprint'' then 6
      else if f = ''linear_velocity_pattern'' then 7
      else if f = ''uniform_delta_pattern'' then 8
      else if f = ''low_slider_entropy'' then 9
      else if f = ''no_movement_pauses'' then 10
      else if f = ''insufficient_trajectory_data'' then 11
      else if f = ''invalid_behavior_duration'' then 12
      else if f = ''suspiciously_fast'' then 13
      else if f = ''very_fast'' then 14
      else if f = ''suspiciously_slow'' then 15
      else if f = ''missing_mousedown'' then 16
      else if f = ''insufficient_mouse_movement'' then 17
      else if f = ''limited_mouse_movement'' then 18
      else if f = ''low_event_count'' then 19
      else if f = ''missing_behavior_data'' then 20
      else 0)"

text \<open>
  The invariant of the two locals: no flag twice, only flags of positions below \<open>k\<close>
  with a positive cost, and the score is 100 minus the cost of the flags so far.
\<close>

definition acc_ok :: "nat \<Rightarrow> risk_acc \<Rightarrow> bool" where
  "acc_ok k a \<longleftrightarrow>
     distinct (fst a) \<and> list_all (\<lambda>f. flag_rank f < k \<and> 0 < penalty f) (fst a) \<and>
     snd a = 100 - sum_list (map penalty (fst a))"

section \<open>Concrete inputs\<close>

text \<open>
  An instance of the interpreter's part that reads plain decimal numerals and lets the
  variance arithmetic raise on samples of magnitude \<open>2^500\<close> or more, and the telemetry
  of two clients: one that behaves like a person and one that sends nothing.
\<close>

definition decimal_of_str :: "string \<Rightarrow> int option" where
  "decimal_of_str s =
     (if s \<noteq> [] \<and> list_all (\<lambda>c. 48 \<le> (of_char c :: nat) \<and> (of_char c :: nat) \<le> 57) s
      then Some (foldl (\<lambda>a c. 10 * a + (int (of_char c) - 48)) 0 s)
      else None)"

definition example_builtins :: py_builtins where
  "example_builtins =
     \<lparr>int_of_str = decimal_of_str,
      float_of_str = (\<lambda>s. map_option real_of_int (decimal_of_str s)),
      str_of_other = (\<lambda>v. ''?''),
      variance_error = (\<lambda>xs. if list_ex (\<lambda>v. 2 ^ 500 \<le> \<bar>v\<bar>) xs
                             then Some OverflowError else None)\<rparr>"

definition human_fingerprint :: "(string \<times> json) list" where
  "human_fingerprint =
     [(''user_agent'', JStr ''Mozilla/5.0 (X11; Linux x86_64)''),
      (''screen_resolution'', JStr ''1920x1080''),
      (''webdriver'', JBool False),
      (''timezone_name'', JStr ''Europe/Paris''),
      (''canvas_fingerprint'', JStr ''a1b2c3'')]"

definition human_trajectory :: "TrajectoryPoint list" where
  "human_trajectory =
     [\<lparr>p_timestamp = 0, p_value = 1, p_delta = 1, p_velocity = 1 / 10, p_time_delta_ms = 16\<rparr>,
      \<lparr>p_timestamp = 130, p_value = 6, p_delta = 5, p_velocity = 1 / 2, p_time_delta_ms = 130\<rparr>,
      \<lparr>p_timestamp = 146, p_value = 18, p_delta = 12, p_velocity = 6 / 5, p_time_delta_ms = 16\<rparr>,
      \<lparr>p_timestamp = 162, p_value = 21, p_delta = 3, p_velocity = 3 / 10, p_time_delta_ms = 16\<rparr>]"

definition human_behavior :: BehaviorData where
  "human_behavior =
     \<lparr>start_time = 0, end_time = 2500, total_duration_ms = 2500, event_count = 18,
      mouse_down_count = 1, mouse_move_count = 15, events = []\<rparr>"

definition human_session :: "int \<Rightarrow> CaptchaSession" where
  "human_session solved =
     \<lparr>solved_value = solved, fingerprint = Some human_fingerprint,
      trajectory = Some human_trajectory, behavior = Some human_behavior\<rparr>"

definition hasty_session :: "int \<Rightarrow> CaptchaSession" where
  "hasty_session solved =
     \<lparr>solved_value = solved, fingerprint = Some human_fingerprint,
      trajectory = None, behavior = Some (human_behavior\<lparr>total_duration_ms := 250\<rparr>)\<rparr>"

definition empty_session :: "int \<Rightarrow> CaptchaSession" where
  "empty_session solved =
     \<lparr>solved_value = solved, fingerprint = None, trajectory = None, behavior = None\<rparr>"

text \<open>
  A process for the examples: a stand-in for HMAC-SHA256 (the digest is the length of the
  message), the default secret of the source, and a stand-in for the native solver for
  which nonce 12345 meets the target of every challenge and no other nonce does. The
  example challenge is issued at clock reading 1740000000.2.
\<close>

definition example_env :: pow_env where
  "example_env =
     \<lparr>hmac_sha256 = (\<lambda>key msg. of_nat (length msg)),
      POW_SERVER_SECRET = ''c3ab8ff13720e8ad9047dd39466b3c8974e592c2fa383d4a3960714caef0c4f2'',
      native_solver = Some (\<lambda>salt difficulty start iterations.
                              if start = 12345 then start else - 1)\<rparr>"

definition example_challenge :: PoWChallenge where
  "example_challenge =
     generate_pow_challenge example_env (replicate 16 171) (17400000002 / 10) 15"

text \<open>Three successive clock readings, a millisecond apart.\<close>

definition clock_from :: "real \<Rightarrow> pow_clock" where
  "clock_from t = \<lparr>t_fresh = t, t_purge = t + 1 / 1000, t_burn = t + 2 / 1000\<rparr>"

text \<open>
  A server holding one image session, and a request that names it, answers it exactly
  and carries the example challenge with a solving nonce but no telemetry.
\<close>

definition example_state :: server_state where
  "example_state =
     \<lparr>captcha_sessions = [''abc'' \<mapsto> empty_session 42],
      video_captcha_sessions = Map.empty,
      pow_used_nonces = Map.empty\<rparr>"

definition example_request :: verify_request where
  "example_request =
     \<lparr>req_captcha_id = Some ''abc'',
      req_slider_value = Some 42,
      req_mode = None,
      req_trajectory = JNull,
      req_behavior = JNull,
      req_fingerprint = JNull,
      req_pow_salt = Some (pc_salt example_challenge),
      req_pow_nonce = Some 12345,
      req_pow_difficulty = Some 15,
      req_pow_timestamp = Some 1740000000,
      req_pow_signature = Some (pc_signature example_challenge)\<rparr>"

text \<open>
  A server holding two video challenges, whose targets are the floats \<open>0.4006\<close> and
  \<open>0.7\<close>, and an analyzer that reports the \<open>solved_value\<close> it is handed as its score.
\<close>

definition example_video_challenge :: "real \<Rightarrow> video_challenge" where
  "example_video_challenge target =
     \<lparr>roi_true_x = 100, roi_true_y = 50, roi_start_x = 10, roi_start_y = 20,
      roi_size = 120, secret_target = target, current_slider = 0\<rparr>"

definition example_video_state :: server_state where
  "example_video_state =
     \<lparr>captcha_sessions = Map.empty,
      video_captcha_sessions =
        [''v1'' \<mapsto> example_video_challenge (7216568042898483 / 18014398509481984),
         ''v2'' \<mapsto> example_video_challenge (3152519739159347 / 4503599627370496)],
      pow_used_nonces = Map.empty\<rparr>"

definition probe_analyzer :: "CaptchaSession \<Rightarrow> py_exn + risk_analysis" where
  "probe_analyzer session =
     Inr \<lparr>is_bot = False, confidence_score = solved_value session, flags = [],
          details = \<lparr>fingerprint_present = False, trajectory_points = 0,
                     details_total_duration_ms = 0, movement_events = 0\<rparr>\<rparr>"

section \<open>Float arithmetic\<close>

text \<open>The exponent is the one of the binade of \<open>x\<close>, so \<open>double_round\<close> rounds to 53 bits.\<close>

lemma pow2_pos: "0 < pow2 e"
  by (simp add: pow2_def)

lemma pow2_powr: "pow2 e = 2 powr real_of_int e"
proof (cases "0 \<le> e")
  case True
  then show ?thesis
    by (simp add: pow2_def powr_realpow [symmetric])
next
  case False
  then have "2 powr real_of_int e = 1 / 2 powr real_of_int (- e)"
    by (simp add: powr_minus_divide)
  also have "\<dots> = 1 / 2 ^ nat (- e)"
    using False by (simp add: powr_realpow [symmetric])
  finally show ?thesis using False by (simp add: pow2_def)
qed

lemma pow2_mono: "a \<le> b \<Longrightarrow> pow2 a \<le> pow2 b"
  by (simp add: pow2_powr)

lemma pow2_strict_mono: "a < b \<Longrightarrow> pow2 a < pow2 b"
  by (simp add: pow2_powr)

lemma pow2_add: "pow2 (a + b) = pow2 a * pow2 b"
  by (simp add: pow2_powr powr_add)

lemma double_exponent_bounds:
  assumes "x \<noteq> 0"
  shows "pow2 (double_exponent x) \<le> \<bar>x\<bar> \<and> \<bar>x\<bar> < pow2 (double_exponent x + 1)"
proof (cases "1 \<le> \<bar>x\<bar>")
  case True
  define m where "m = \<lfloor>\<bar>x\<bar>\<rfloor>"
  have m: "0 < m" using True by (simp add: m_def)
  have e: "double_exponent x = bitlen m - 1"
    using True by (simp add: double_exponent_def m_def)
  have b1: "bitlen m \<ge> 1" using m by (simp add: bitlen_alt_def)
  from bitlen_bounds [OF m] have lo: "2 ^ nat (bitlen m - 1) \<le> m" and hi: "m < 2 ^ nat (bitlen m)"
    by simp_all
  have "(2::real) ^ nat (bitlen m - 1) \<le> real_of_int m"
    using lo by simp
  also have "real_of_int m \<le> \<bar>x\<bar>" by (simp add: m_def)
  finally have l: "pow2 (bitlen m - 1) \<le> \<bar>x\<bar>"
    using b1 by (simp add: pow2_def)
  have "m + 1 \<le> 2 ^ nat (bitlen m)" using hi by simp
  then have "real_of_int (m + 1) \<le> (2::real) ^ nat (bitlen m)"
    by (metis of_int_le_iff of_int_numeral of_int_power)
  moreover have "\<bar>x\<bar> < real_of_int (m + 1)" by (simp add: m_def)
  ultimately have "\<bar>x\<bar> < (2::real) ^ nat (bitlen m)" by linarith
  then have h: "\<bar>x\<bar> < pow2 (bitlen m - 1 + 1)"
    using b1 by (simp add: pow2_def)
  from l h e show ?thesis by simp
next
  case False
  define y where "y = 1 / \<bar>x\<bar>"
  have xpos: "0 < \<bar>x\<bar>" using assms by simp
  have y1: "1 < y" using False xpos by (simp add: y_def)
  define c where "c = \<lceil>y\<rceil> - 1"
  have c: "0 < c" using y1 by (simp add: c_def; linarith)
  have e: "double_exponent x = - bitlen c"
    using False by (simp add: double_exponent_def c_def y_def)
  have b1: "bitlen c \<ge> 1" using c by (simp add: bitlen_alt_def)
  from bitlen_bounds [OF c] have lo: "2 ^ nat (bitlen c - 1) \<le> c" and hi: "c < 2 ^ nat (bitlen c)"
    by simp_all
  have "real_of_int c < y" by (simp add: c_def; linarith)
  moreover have "(2::real) ^ nat (bitlen c - 1) \<le> real_of_int c"
    using lo by simp
  ultimately have ylo: "2 ^ nat (bitlen c - 1) < y" by linarith
  have "c + 1 \<le> 2 ^ nat (bitlen c)" using hi by simp
  then have "real_of_int (c + 1) \<le> (2::real) ^ nat (bitlen c)"
    by (metis of_int_le_iff of_int_numeral of_int_power)
  moreover have "y \<le> real_of_int (c + 1)" by (simp add: c_def)
  ultimately have yhi: "y \<le> 2 ^ nat (bitlen c)" by linarith
  have l: "pow2 (- bitlen c) \<le> \<bar>x\<bar>"
  proof -
    have "1 / 2 ^ nat (bitlen c) \<le> 1 / y"
      using yhi y1 by (intro divide_left_mono) simp_all
    then show ?thesis using b1 xpos by (simp add: pow2_def y_def)
  qed
  have h: "\<bar>x\<bar> < pow2 (- bitlen c + 1)"
  proof -
    have "1 / y < 1 / 2 ^ nat (bitlen c - 1)"
      using ylo y1 by (intro divide_strict_left_mono) simp_all
    moreover have "pow2 (- bitlen c + 1) = 1 / 2 ^ nat (bitlen c - 1)"
      using b1 by (cases "bitlen c = 1") (simp_all add: pow2_def)
    ultimately show ?thesis using xpos by (simp add: y_def)
  qed
  from l h e show ?thesis by simp
qed

lemma double_exponent_eq:
  assumes "pow2 n \<le> \<bar>x\<bar>" "\<bar>x\<bar> < pow2 (n + 1)"
  shows "double_exponent x = n"
proof -
  have "x \<noteq> 0" using assms(1) pow2_pos [of n] by auto
  from double_exponent_bounds [OF this]
  have b: "pow2 (double_exponent x) \<le> \<bar>x\<bar>" "\<bar>x\<bar> < pow2 (double_exponent x + 1)"
    by simp_all
  have "\<not> double_exponent x < n"
  proof
    assume "double_exponent x < n"
    then have "pow2 (double_exponent x + 1) \<le> pow2 n" by (intro pow2_mono) simp
    with b(2) assms(1) show False by linarith
  qed
  moreover have "\<not> n < double_exponent x"
  proof
    assume "n < double_exponent x"
    then have "pow2 (n + 1) \<le> pow2 (double_exponent x)" by (intro pow2_mono) simp
    with b(1) assms(2) show False by linarith
  qed
  ultimately show ?thesis by linarith
qed

lemma py_round_bounds: "\<lfloor>x\<rfloor> \<le> py_round x \<and> py_round x \<le> \<lfloor>x\<rfloor> + 1"
  by (simp add: py_round_def Let_def)

lemma py_round_ge: "real_of_int k \<le> y \<Longrightarrow> k \<le> py_round y"
proof -
  assume "real_of_int k \<le> y"
  then have "k \<le> \<lfloor>y\<rfloor>" by (simp add: le_floor_iff)
  with py_round_bounds [of y] show ?thesis by linarith
qed

lemma py_round_le: "y < real_of_int k + 1 / 2 \<Longrightarrow> py_round y \<le> k"
proof -
  assume a: "y < real_of_int k + 1 / 2"
  have f: "\<lfloor>y\<rfloor> \<le> k" using a by (simp add: floor_le_iff)
  show ?thesis
  proof (cases "\<lfloor>y\<rfloor> = k")
    case True
    with a have "y - real_of_int \<lfloor>y\<rfloor> < 1 / 2" by simp
    then show ?thesis using True by (simp add: py_round_def Let_def)
  next
    case False
    with f have "\<lfloor>y\<rfloor> + 1 \<le> k" by simp
    with py_round_bounds [of y] show ?thesis by linarith
  qed
qed

lemma double_round_eval:
  assumes "pow2 n \<le> \<bar>x\<bar>" "\<bar>x\<bar> < pow2 (n + 1)"
  shows "double_round x = real_of_int (py_round (x / pow2 (n - 52))) * pow2 (n - 52)"
proof -
  have "x \<noteq> 0" using assms(1) pow2_pos [of n] by auto
  then show ?thesis
    by (simp add: double_round_def Let_def double_exponent_eq [OF assms])
qed

lemma double_round_nonneg: "0 \<le> x \<Longrightarrow> 0 \<le> double_round x"
proof -
  assume x: "0 \<le> x"
  have "0 \<le> x / pow2 (double_exponent x - 52)"
    using x pow2_pos [of "double_exponent x - 52"] by simp
  then have "0 \<le> py_round (x / pow2 (double_exponent x - 52))"
    using py_round_ge [of 0] by simp
  then show ?thesis
    using pow2_pos [of "double_exponent x - 52"] by (simp add: double_round_def Let_def)
qed

lemma double_values:
  "double_round (4 / 10) = 3602879701896397 / 9007199254740992"
  "double_round (8 / 10) = 3602879701896397 / 4503599627370496"
  "double_round (3 / 100) = 1080863910568919 / 36028797018963968"
  by code_simp+

lemma target_product_range:
  assumes "400 \<le> x" "x \<le> 3602879701896397 / 4503599627370496 * 1000"
  shows "400 \<le> double_round x \<and> double_round x \<le> 800"
proof (cases "x < 512")
  case True
  have e: "double_round x = real_of_int (py_round (x / pow2 (- 44))) * pow2 (- 44)"
    using assms(1) True double_round_eval [of 8 x] by (simp add: pow2_def)
  have u: "pow2 (- 44) = 1 / 2 ^ 44" by (simp add: pow2_def)
  have "real_of_int (400 * 2 ^ 44) \<le> x / pow2 (- 44)"
    using assms(1) by (simp add: u)
  then have lo: "400 * 2 ^ 44 \<le> py_round (x / pow2 (- 44))" by (rule py_round_ge)
  have "x / pow2 (- 44) < real_of_int (512 * 2 ^ 44) + 1 / 2"
    using True by (simp add: u)
  then have hi: "py_round (x / pow2 (- 44)) \<le> 512 * 2 ^ 44" by (rule py_round_le)
  from lo have "real_of_int (400 * 2 ^ 44) \<le> real_of_int (py_round (x / pow2 (- 44)))"
    by (simp only: of_int_le_iff)
  moreover from hi
  have "real_of_int (py_round (x / pow2 (- 44))) \<le> real_of_int (512 * 2 ^ 44)"
    by (simp only: of_int_le_iff)
  ultimately show ?thesis
    unfolding e u by simp
next
  case False
  have e: "double_round x = real_of_int (py_round (x / pow2 (- 43))) * pow2 (- 43)"
    using assms(2) False double_round_eval [of 9 x] by (simp add: pow2_def)
  have u: "pow2 (- 43) = 1 / 2 ^ 43" by (simp add: pow2_def)
  have "real_of_int (512 * 2 ^ 43) \<le> x / pow2 (- 43)"
    using False by (simp add: u)
  then have lo: "512 * 2 ^ 43 \<le> py_round (x / pow2 (- 43))" by (rule py_round_ge)
  have "x / pow2 (- 43) < real_of_int (800 * 2 ^ 43) + 1 / 2"
    using assms(2) by (simp add: u)
  then have hi: "py_round (x / pow2 (- 43)) \<le> 800 * 2 ^ 43" by (rule py_round_le)
  from lo have "real_of_int (512 * 2 ^ 43) \<le> real_of_int (py_round (x / pow2 (- 43)))"
    by (simp only: of_int_le_iff)
  moreover from hi
  have "real_of_int (py_round (x / pow2 (- 43))) \<le> real_of_int (800 * 2 ^ 43)"
    by (simp only: of_int_le_iff)
  ultimately show ?thesis
    unfolding e u by simp
qed

section \<open>The risk score\<close>

lemma flag_rank_values:
  "flag_rank ''suspicious_user_agent'' = 1"
  "flag_rank ''invalid_screen_resolution'' = 2"
  "flag_rank ''webdriver_detected'' = 3"
  "flag_rank ''missing_timezone'' = 4"
  "flag_rank ''missing_canvas_fingerprint'' = 5"
  "flag_rank ''missing_fingerprint'' = 6"
  "flag_rank ''linear_velocity_pattern'' = 7"
  "flag_rank ''uniform_delta_pattern'' = 8"
  "flag_rank ''low_slider_entropy'' = 9"
  "flag_rank ''no_movement_pauses'' = 10"
  "flag_rank ''insufficient_trajectory_data'' = 11"
  "flag_rank ''invalid_behavior_duration'' = 12"
  "flag_rank ''suspiciously_fast'' = 13"
  "flag_rank ''very_fast'' = 14"
  "flag_rank ''suspiciously_slow'' = 15"
  "flag_rank ''missing_mousedown'' = 16"
  "flag_rank ''insufficient_mouse_movement'' = 17"
  "flag_rank ''limited_mouse_movement'' = 18"
  "flag_rank ''low_event_count'' = 19"
  "flag_rank ''missing_behavior_data'' = 20"
  by (simp_all add: flag_rank_def)

lemma penalty_values:
  "penalty ''suspicious_user_agent'' = 20"
  "penalty ''invalid_screen_resolution'' = 15"
  "penalty ''webdriver_detected'' = 35"
  "penalty ''missing_timezone'' = 5"
  "penalty ''missing_canvas_fingerprint'' = 10"
  "penalty ''missing_fingerprint'' = 30"
  "penalty ''linear_velocity_pattern'' = 20"
  "penalty ''uniform_delta_pattern'' = 15"
  "penalty ''low_slider_entropy'' = 15"
  "penalty ''no_movement_pauses'' = 15"
  "penalty ''insufficient_trajectory_data'' = 30"
  "penalty ''invalid_behavior_duration'' = 20"
  "penalty ''suspiciously_fast'' = 25"
  "penalty ''very_fast'' = 10"
  "penalty ''suspiciously_slow'' = 10"
  "penalty ''missing_mousedown'' = 10"
  "penalty ''insufficient_mouse_movement'' = 20"
  "penalty ''limited_mouse_movement'' = 10"
  "penalty ''low_event_count'' = 10"
  "penalty ''missing_behavior_data'' = 25"
  by (simp_all add: penalty_def)

lemma acc_ok_mono: "acc_ok k a \<Longrightarrow> k \<le> k' \<Longrightarrow> acc_ok k' a"
  by (auto simp: acc_ok_def list_all_iff)

lemma flag_rule_ok:
  assumes "acc_ok (flag_rank name) a" "flag_rank name < k" "penalty name = pts" "0 < pts"
  shows "acc_ok k (flag_rule c name pts a)"
  using assms by (auto simp: acc_ok_def flag_rule_def list_all_iff)

lemma if_ok: "acc_ok k x \<Longrightarrow> acc_ok k y \<Longrightarrow> acc_ok k (if b then x else y)"
  by simp

lemma fingerprint_rules_ok:
  assumes "acc_ok 1 a"
  shows "acc_ok 7 (fingerprint_rules B fp a)"
proof -
  have base: "\<And>k. 1 \<le> k \<Longrightarrow> acc_ok k a"
    using assms acc_ok_mono by blast
  show ?thesis
    unfolding fingerprint_rules_def Let_def
    by (auto split: option.split list.split prod.split
          intro!: flag_rule_ok if_ok base simp: flag_rank_values penalty_values)
qed

lemma trajectory_rules_ok:
  assumes "acc_ok 7 a"
  shows "acc_ok 12 (trajectory_rules tr a)"
proof -
  have base: "\<And>k. 7 \<le> k \<Longrightarrow> acc_ok k a"
    using assms acc_ok_mono by blast
  show ?thesis
    unfolding trajectory_rules_def Let_def
    by (auto split: option.split list.split prod.split
          intro!: flag_rule_ok if_ok base simp: flag_rank_values penalty_values)
qed

lemma behavior_rules_ok:
  assumes "acc_ok 12 a"
  shows "acc_ok 21 (behavior_rules bh a)"
proof -
  have base: "\<And>k. 12 \<le> k \<Longrightarrow> acc_ok k a"
    using assms acc_ok_mono by blast
  show ?thesis
    unfolding behavior_rules_def Let_def
    by (auto split: option.split list.split prod.split
          intro!: flag_rule_ok if_ok base simp: flag_rank_values penalty_values)
qed

lemma risk_rules_ok: "acc_ok 21 (risk_rules B s)"
  unfolding risk_rules_def
  by (intro behavior_rules_ok trajectory_rules_ok fingerprint_rules_ok) (simp add: acc_ok_def)
lemma flags_sum_mono:
  assumes "distinct xs" "distinct ys" "set xs \<subseteq> set ys" "list_all (\<lambda>f. 0 < penalty f) ys"
  shows "sum_list (map penalty xs) \<le> sum_list (map penalty ys)"
proof -
  have "sum_list (map penalty xs) = sum penalty (set xs)"
    using assms(1) by (simp add: sum_list_distinct_conv_sum_set)
  also have "\<dots> \<le> sum penalty (set ys)"
    using assms(3,4) by (intro sum_mono2) (auto simp: list_all_iff less_imp_le)
  also have "\<dots> = sum_list (map penalty ys)"
    using assms(2) by (simp add: sum_list_distinct_conv_sum_set)
  finally show ?thesis .
qed

lemma analyze_flags: "flags (analyze_bot_risk B s) = fst (risk_rules B s)"
  by (simp add: analyze_bot_risk_def Let_def)

lemma analyze_score:
  "confidence_score (analyze_bot_risk B s) =
     max 0 (min 100 (100 - sum_list (map penalty (flags (analyze_bot_risk B s)))))"
  using risk_rules_ok [of B s] by (simp add: analyze_bot_risk_def Let_def acc_ok_def)

lemma analyze_flags_distinct:
  "distinct (flags (analyze_bot_risk B s)) \<and> list_all (\<lambda>f. 0 < penalty f) (flags (analyze_bot_risk B s))"
  using risk_rules_ok [of B s] by (auto simp add: analyze_flags acc_ok_def list_all_iff)

text \<open>
  Claim C5. For every session, whatever telemetry is present or absent,
  \<open>analyze_bot_risk\<close> returns a confidence score between 0 and 100 and sets \<open>is_bot\<close>
  exactly when the score is below 60; and a session that raises every flag another
  session raises, and possibly more, never gets the higher score.
\<close>

theorem analyze_bot_risk_score:
  "0 \<le> confidence_score (analyze_bot_risk B s) \<and>
   confidence_score (analyze_bot_risk B s) \<le> 100 \<and>
   (is_bot (analyze_bot_risk B s) \<longleftrightarrow> confidence_score (analyze_bot_risk B s) < 60) \<and>
   (set (flags (analyze_bot_risk B s)) \<subseteq> set (flags (analyze_bot_risk B s')) \<longrightarrow>
      confidence_score (analyze_bot_risk B s') \<le> confidence_score (analyze_bot_risk B s))"
proof -
  have bounds: "0 \<le> confidence_score (analyze_bot_risk B s) \<and>
      confidence_score (analyze_bot_risk B s) \<le> 100 \<and>
      (is_bot (analyze_bot_risk B s) \<longleftrightarrow> confidence_score (analyze_bot_risk B s) < 60)"
    by (simp add: analyze_bot_risk_def Let_def)
  have mono: "confidence_score (analyze_bot_risk B s') \<le> confidence_score (analyze_bot_risk B s)"
    if sub: "set (flags (analyze_bot_risk B s)) \<subseteq> set (flags (analyze_bot_risk B s'))"
  proof -
    have "sum_list (map penalty (flags (analyze_bot_risk B s)))
            \<le> sum_list (map penalty (flags (analyze_bot_risk B s')))"
      using analyze_flags_distinct [of B s] analyze_flags_distinct [of B s'] sub
      by (intro flags_sum_mono) auto
    then show ?thesis
      by (subst analyze_score [of B s], subst analyze_score [of B s']) linarith
  qed
  from bounds mono show ?thesis by blast
qed

lemma hasty_flags:
  "flags (analyze_bot_risk example_builtins (hasty_session 42)) =
     [''insufficient_trajectory_data'', ''suspiciously_fast'']"
  "flags (analyze_bot_risk example_builtins ((hasty_session 42)\<lparr>fingerprint := None\<rparr>)) =
     [''missing_fingerprint'', ''insufficient_trajectory_data'', ''suspiciously_fast'']"
  by code_simp+

theorem analyze_bot_risk_score_witness:
  "set (flags (analyze_bot_risk example_builtins (hasty_session 42)))
     \<subseteq> set (flags (analyze_bot_risk example_builtins
                      ((hasty_session 42)\<lparr>fingerprint := None\<rparr>))) \<and>
   confidence_score (analyze_bot_risk example_builtins
       ((hasty_session 42)\<lparr>fingerprint := None\<rparr>))
     \<le> confidence_score (analyze_bot_risk example_builtins (hasty_session 42)) \<and>
   0 \<le> confidence_score (analyze_bot_risk example_builtins (hasty_session 42)) \<and>
   confidence_score (analyze_bot_risk example_builtins (hasty_session 42)) \<le> 100 \<and>
   is_bot (analyze_bot_risk example_builtins (hasty_session 42))"
proof -
  have sub: "set (flags (analyze_bot_risk example_builtins (hasty_session 42)))
     \<subseteq> set (flags (analyze_bot_risk example_builtins
                      ((hasty_session 42)\<lparr>fingerprint := None\<rparr>)))"
    by (simp add: hasty_flags)
  have score: "confidence_score (analyze_bot_risk example_builtins (hasty_session 42)) = 45"
    by (simp add: analyze_score hasty_flags penalty_values)
  show ?thesis
    using analyze_bot_risk_score
      [of example_builtins "hasty_session 42" "(hasty_session 42)\<lparr>fingerprint := None\<rparr>"]
      sub score
    by simp
qed

text \<open>
  Claim C10. The risk analysis does not read the secret answer: two sessions with the
  same fingerprint, trajectory and behavior get the same result (\<open>is_bot\<close>, score, flags
  and details) whatever their \<open>solved_value\<close>.
\<close>

theorem analyze_bot_risk_ignores_solved_value:
  "fingerprint s = fingerprint s' \<Longrightarrow> trajectory s = trajectory s' \<Longrightarrow>
   behavior s = behavior s' \<Longrightarrow> analyze_bot_risk B s = analyze_bot_risk B s'"
  by (simp add: analyze_bot_risk_def risk_rules_def)

theorem analyze_bot_risk_ignores_solved_value_witness:
  "solved_value (human_session 42) \<noteq> solved_value (human_session 77) \<and>
   analyze_bot_risk example_builtins (human_session 42) =
     analyze_bot_risk example_builtins (human_session 77)"
  using analyze_bot_risk_ignores_solved_value
    [of "human_session 42" "human_session 77" example_builtins]
  by (simp add: human_session_def)

section \<open>Proof-of-work difficulty\<close>

text \<open>
  Claim C6. \<open>compute_pow_difficulty\<close> scores the telemetry with \<open>analyze_bot_risk\<close> and
  maps the score to exactly one tier: 70 or more is \<open>low\<close> with difficulty 15, from 40
  to 69 is \<open>medium\<close> with difficulty 19, below 40 is \<open>high\<close> with difficulty 22.
\<close>

theorem compute_pow_difficulty_tiers:
  "pd_score (compute_pow_difficulty B fp tr bh) =
     confidence_score (analyze_bot_risk B
       \<lparr>solved_value = 0, fingerprint = fp, trajectory = tr, behavior = bh\<rparr>) \<and>
   (70 \<le> pd_score (compute_pow_difficulty B fp tr bh) \<longrightarrow>
      pd_risk_level (compute_pow_difficulty B fp tr bh) = ''low'' \<and>
      pd_difficulty (compute_pow_difficulty B fp tr bh) = 15) \<and>
   (40 \<le> pd_score (compute_pow_difficulty B fp tr bh) \<and>
    pd_score (compute_pow_difficulty B fp tr bh) < 70 \<longrightarrow>
      pd_risk_level (compute_pow_difficulty B fp tr bh) = ''medium'' \<and>
      pd_difficulty (compute_pow_difficulty B fp tr bh) = 19) \<and>
   (pd_score (compute_pow_difficulty B fp tr bh) < 40 \<longrightarrow>
      pd_risk_level (compute_pow_difficulty B fp tr bh) = ''high'' \<and>
      pd_difficulty (compute_pow_difficulty B fp tr bh) = 22)"
  by (simp add: compute_pow_difficulty_def Let_def)

lemma example_scores:
  "pd_score (compute_pow_difficulty example_builtins
      (Some human_fingerprint) (Some human_trajectory) (Some human_behavior)) = 100"
  "pd_score (compute_pow_difficulty example_builtins
      (Some human_fingerprint) None (Some (human_behavior\<lparr>total_duration_ms := 250\<rparr>))) = 45"
  "pd_score (compute_pow_difficulty example_builtins None None None) = 15"
  by code_simp+

theorem compute_pow_difficulty_tiers_witness:
  "pd_risk_level (compute_pow_difficulty example_builtins
      (Some human_fingerprint) (Some human_trajectory) (Some human_behavior)) = ''low'' \<and>
   pd_difficulty (compute_pow_difficulty example_builtins
      (Some human_fingerprint) (Some human_trajectory) (Some human_behavior)) = 15 \<and>
   pd_risk_level (compute_pow_difficulty example_builtins
      (Some human_fingerprint) None (Some (human_behavior\<lparr>total_duration_ms := 250\<rparr>)))
     = ''medium'' \<and>
   pd_difficulty (compute_pow_difficulty example_builtins
      (Some human_fingerprint) None (Some (human_behavior\<lparr>total_duration_ms := 250\<rparr>)))
     = 19 \<and>
   pd_risk_level (compute_pow_difficulty example_builtins None None None) = ''high'' \<and>
   pd_difficulty (compute_pow_difficulty example_builtins None None None) = 22"
  using
    compute_pow_difficulty_tiers
      [of example_builtins "Some human_fingerprint" "Some human_trajectory" "Some human_behavior"]
    compute_pow_difficulty_tiers
      [of example_builtins "Some human_fingerprint" None
          "Some (human_behavior\<lparr>total_duration_ms := 250\<rparr>)"]
    compute_pow_difficulty_tiers [of example_builtins None None None]
  by (simp add: example_scores)

section \<open>Keyframe positions\<close>

lemma gaps_ok_nth:
  "gaps_ok ps \<longleftrightarrow> (\<forall>i. Suc i < length ps \<longrightarrow> ps ! i + 8 \<le> ps ! Suc i)"
proof -
  have "(\<forall>i\<in>{0..<length ps - 1}. MIN_GAP \<le> ps ! (i + 1) - ps ! i) \<longleftrightarrow>
        (\<forall>i. Suc i < length ps \<longrightarrow> ps ! i + 8 \<le> ps ! Suc i)"
  proof (intro iffI allI impI ballI)
    fix i assume a: "\<forall>i\<in>{0..<length ps - 1}. MIN_GAP \<le> ps ! (i + 1) - ps ! i"
      and "Suc i < length ps"
    then have "i \<in> {0..<length ps - 1}" by auto
    with a have "MIN_GAP \<le> ps ! (i + 1) - ps ! i" by blast
    then show "ps ! i + 8 \<le> ps ! Suc i" by (simp add: MIN_GAP_def)
  next
    fix i assume a: "\<forall>i. Suc i < length ps \<longrightarrow> ps ! i + 8 \<le> ps ! Suc i"
      and "i \<in> {0..<length ps - 1}"
    then have "Suc i < length ps" by auto
    with a have "ps ! i + 8 \<le> ps ! Suc i" by blast
    then show "MIN_GAP \<le> ps ! (i + 1) - ps ! i" by (simp add: MIN_GAP_def)
  qed
  then show ?thesis by (simp add: gaps_ok_def list_all_iff)
qed

lemma gaps_ok_strict: "gaps_ok ps \<Longrightarrow> sorted_wrt (<) ps"
proof -
  assume "gaps_ok ps"
  then have "\<forall>i. Suc i < length ps \<longrightarrow> ps ! i < ps ! Suc i"
    by (fastforce simp: gaps_ok_nth)
  then show ?thesis
    by (simp add: sorted_wrt_iff_nth_Suc_transp)
qed

lemma retry_keyframes_Some:
  "retry_keyframes k draw i = Some ps \<Longrightarrow>
     \<exists>j. ps = [0] @ sort (draw j) @ [100] \<and> gaps_ok ps"
proof (induction k arbitrary: i)
  case 0
  then show ?case by simp
next
  case (Suc k)
  show ?case
  proof (cases "gaps_ok ([0] @ sort (draw i) @ [100])")
    case True
    with Suc.prems show ?thesis by (auto simp: Let_def)
  next
    case False
    with Suc.prems have "retry_keyframes k draw (Suc i) = Some ps"
      by (simp add: Let_def)
    then show ?thesis by (rule Suc.IH)
  qed
qed

lemma retry_keyframes_None:
  "(\<And>j. \<not> gaps_ok ([0] @ sort (draw j) @ [100])) \<Longrightarrow> retry_keyframes k draw i = None"
  by (induction k arbitrary: i) (simp_all add: Let_def)

lemma fallback_keyframes_values:
  "fallback_keyframes 3 = [0, 25, 50, 75, 100]"
  "fallback_keyframes 4 = [0, 20, 40, 60, 80, 100]"
  "fallback_keyframes 5 = [0, 16, 32, 48, 64, 80, 100]"
  by (simp_all add: fallback_keyframes_def Let_def upto.simps)

lemma gaps_ok_fallback:
  "gaps_ok [0, 25, 50, 75, 100]" "gaps_ok [0, 20, 40, 60, 80, 100]"
  "gaps_ok [0, 16, 32, 48, 64, 80, 100]"
  by (simp_all add: gaps_ok_def MIN_GAP_def upt_rec)

lemma evenly_fallback:
  "evenly_spaced [0, 25, 50, 75, 100]" "evenly_spaced [0, 20, 40, 60, 80, 100]"
  "\<not> evenly_spaced [0, 16, 32, 48, 64, 80, 100]"
  by (simp_all add: evenly_spaced_def upt_rec)


lemma six_equal_gaps:
  fixes a0 a1 a2 a3 a4 a5 a6 :: int
  assumes "a2 - a1 = a1 - a0" "a3 - a2 = a1 - a0" "a4 - a3 = a1 - a0" "a5 - a4 = a1 - a0"
    "a6 - a5 = a1 - a0" "a0 = 0" "a6 = 100"
  shows False
  using assms by presburger

text \<open>
  With five interior points there are six gaps, and no list of seven integers from 0 to
  100 has six equal gaps.
\<close>

lemma seven_positions_not_evenly_spaced:
  assumes "length ps = 7" "ps ! 0 = 0" "ps ! 6 = 100"
  shows "\<not> evenly_spaced ps"
proof
  assume "evenly_spaced ps"
  then have all: "\<forall>i\<in>set [0..<length ps - 1]. ps ! (i + 1) - ps ! i = ps ! 1 - ps ! 0"
    unfolding evenly_spaced_def list_all_iff .
  have g: "ps ! (i + 1) - ps ! i = ps ! 1 - ps ! 0" if "i < 6" for i
  proof -
    have "i \<in> set [0..<length ps - 1]"
      unfolding assms(1) using that by simp
    with all show ?thesis by (rule bspec)
  qed
  have g1: "ps ! 2 - ps ! 1 = ps ! 1 - ps ! 0" using g [of 1] by (simp add: eval_nat_numeral)
  have g2: "ps ! 3 - ps ! 2 = ps ! 1 - ps ! 0" using g [of 2] by (simp add: eval_nat_numeral)
  have g3: "ps ! 4 - ps ! 3 = ps ! 1 - ps ! 0" using g [of 3] by (simp add: eval_nat_numeral)
  have g4: "ps ! 5 - ps ! 4 = ps ! 1 - ps ! 0" using g [of 4] by (simp add: eval_nat_numeral)
  have g5: "ps ! 6 - ps ! 5 = ps ! 1 - ps ! 0" using g [of 5] by (simp add: eval_nat_numeral)
  from g1 g2 g3 g4 g5 assms(2,3) show False
    by (rule six_equal_gaps)
qed

text \<open>
  Claim C9, as amended. Every list returned by \<open>_generate_keyframe_positions\<close> starts
  with 0, ends with 100, is strictly increasing, has 5 to 7 elements and has every
  consecutive gap at least 8, on the fallback path too. On the fallback path the list is
  0, the multiples \<open>step * i\<close> of \<open>step = 100 div (num_interior + 1)\<close> and 100: evenly
  spaced for three and four interior points, and 0, 16, 32, 48, 64, 80, 100 for five.
\<close>

theorem generate_keyframe_positions_shape:
  assumes "3 \<le> num_interior" "num_interior \<le> 5"
    and "\<forall>i. length (draw i) = nat num_interior"
  shows "hd (generate_keyframe_positions num_interior draw) = 0 \<and>
         last (generate_keyframe_positions num_interior draw) = 100 \<and>
         0 \<in> set (generate_keyframe_positions num_interior draw) \<and>
         100 \<in> set (generate_keyframe_positions num_interior draw) \<and>
         sorted_wrt (<) (generate_keyframe_positions num_interior draw) \<and>
         5 \<le> length (generate_keyframe_positions num_interior draw) \<and>
         length (generate_keyframe_positions num_interior draw) \<le> 7 \<and>
         gaps_ok (generate_keyframe_positions num_interior draw) \<and>
         (retry_keyframes 200 draw 0 = None \<longrightarrow>
            generate_keyframe_positions num_interior draw =
              (if num_interior = 3 then [0, 25, 50, 75, 100]
               else if num_interior = 4 then [0, 20, 40, 60, 80, 100]
               else [0, 16, 32, 48, 64, 80, 100]) \<and>
            (evenly_spaced (generate_keyframe_positions num_interior draw)
               \<longleftrightarrow> num_interior \<noteq> 5))"
proof (cases "retry_keyframes 200 draw 0")
  case None
  from assms(1,2) have "num_interior = 3 \<or> num_interior = 4 \<or> num_interior = 5"
    by arith
  with None show ?thesis
    by (auto simp: generate_keyframe_positions_def fallback_keyframes_values
          gaps_ok_fallback evenly_fallback)
next
  case (Some ps)
  then obtain j where ps: "ps = [0] @ sort (draw j) @ [100]" and ok: "gaps_ok ps"
    using retry_keyframes_Some by blast
  have len: "length ps = nat num_interior + 2"
    using assms(3) by (simp add: ps)
  have "sorted_wrt (<) ps"
    using ok by (rule gaps_ok_strict)
  moreover have "hd ps = 0" "last ps = 100" "0 \<in> set ps" "100 \<in> set ps"
    by (simp_all add: ps)
  moreover have "5 \<le> length ps" "length ps \<le> 7"
    using len assms(1,2) by simp_all
  ultimately show ?thesis
    using Some ok by (simp add: generate_keyframe_positions_def)
qed

lemma retry_failing_draw: "retry_keyframes 200 (\<lambda>i. [1, 2, 3, 4, 5]) 0 = None"
  by (rule retry_keyframes_None) (simp add: gaps_ok_nth, rule exI [of _ 0], simp)

lemma retry_good_draw:
  "retry_keyframes 200 (\<lambda>i. [50, 10, 90]) 0 = Some [0, 10, 50, 90, 100]"
  by (simp add: numeral_eq_Suc gaps_ok_def MIN_GAP_def upt_rec Let_def)

theorem generate_keyframe_positions_shape_witness:
  "generate_keyframe_positions 3 (\<lambda>i. [50, 10, 90]) = [0, 10, 50, 90, 100] \<and>
   gaps_ok (generate_keyframe_positions 3 (\<lambda>i. [50, 10, 90])) \<and>
   sorted_wrt (<) (generate_keyframe_positions 3 (\<lambda>i. [50, 10, 90])) \<and>
   retry_keyframes 200 (\<lambda>i. [1, 2, 3, 4, 5]) 0 = None \<and>
   generate_keyframe_positions 5 (\<lambda>i. [1, 2, 3, 4, 5]) = [0, 16, 32, 48, 64, 80, 100] \<and>
   gaps_ok (generate_keyframe_positions 5 (\<lambda>i. [1, 2, 3, 4, 5]))"
proof -
  have a: "generate_keyframe_positions 3 (\<lambda>i. [50, 10, 90]) = [0, 10, 50, 90, 100]"
    by (simp add: generate_keyframe_positions_def retry_good_draw)
  show ?thesis
    using generate_keyframe_positions_shape [of 3 "\<lambda>i. [50, 10, 90]"]
      generate_keyframe_positions_shape [of 5 "\<lambda>i. [1, 2, 3, 4, 5]"]
      retry_failing_draw a
    by (simp add: gaps_ok_fallback)
qed

theorem keyframe_fallback_not_evenly_spaced:
  "retry_keyframes 200 (\<lambda>i. [1, 2, 3, 4, 5]) 0 = None \<and>
   generate_keyframe_positions 5 (\<lambda>i. [1, 2, 3, 4, 5]) = [0, 16, 32, 48, 64, 80, 100] \<and>
   \<not> evenly_spaced (generate_keyframe_positions 5 (\<lambda>i. [1, 2, 3, 4, 5]))"
  by (simp add: generate_keyframe_positions_def retry_failing_draw fallback_keyframes_values
        evenly_fallback)

section \<open>Proof of work\<close>

lemma hex_digit_props:
  assumes "d < 16"
  shows "hex_digit d \<in> set ''0123456789abcdef''" and "(of_char (hex_digit d) :: nat) < 128"
proof -
  show "hex_digit d \<in> set ''0123456789abcdef''"
    unfolding hex_digit_def using assms by (intro nth_mem) simp
  then show "(of_char (hex_digit d) :: nat) < 128"
    by auto
qed

lemma hex_byte_props:
  "length (hex_byte b) = 2"
  "is_lower_hex (hex_byte b)"
  "is_ascii (hex_byte b)"
proof -
  have "unat b < 256"
    using unsigned_less [of b, where ?'a = nat] by simp
  then have d: "unat b div 16 < 16" "unat b mod 16 < 16"
    by simp_all
  show "length (hex_byte b) = 2"
    by (simp add: hex_byte_def)
  show "is_lower_hex (hex_byte b)"
    using hex_digit_props(1) [OF d(1)] hex_digit_props(1) [OF d(2)]
    by (simp add: hex_byte_def is_lower_hex_def del: list.set)
  show "is_ascii (hex_byte b)"
    using hex_digit_props(2) [OF d(1)] hex_digit_props(2) [OF d(2)]
    by (simp add: hex_byte_def is_ascii_def)
qed

lemma bytes_hex_props:
  "length (bytes_hex bs) = 2 * length bs"
  "is_lower_hex (bytes_hex bs)"
  "is_ascii (bytes_hex bs)"
proof -
  show "length (bytes_hex bs) = 2 * length bs"
    by (induction bs) (simp_all add: bytes_hex_def hex_byte_props(1))
  show "is_lower_hex (bytes_hex bs)"
    using hex_byte_props(2) by (induction bs) (simp_all add: bytes_hex_def is_lower_hex_def del: list.set)
  show "is_ascii (bytes_hex bs)"
    using hex_byte_props(3) by (induction bs) (simp_all add: bytes_hex_def is_ascii_def)
qed

lemma hexdigest_props:
  "length (hexdigest w) = 64"
  "is_lower_hex (hexdigest w)"
  "is_ascii (hexdigest w)"
  by (simp_all add: hexdigest_def bytes_hex_props digest_bytes_def)

lemma compare_digest_same: "is_ascii s \<Longrightarrow> compare_digest s s = Inr True"
  by (simp add: compare_digest_def)

lemma compare_digest_True: "compare_digest a b = Inr True \<Longrightarrow> a = b"
  by (auto simp: compare_digest_def split: if_splits)

text \<open>
  Claim C2. For every difficulty and clock reading, the challenge that
  \<open>generate_pow_challenge\<close> produces carries as signature the HMAC-SHA256 of
  \<open>salt.difficulty.timestamp\<close> under the server secret, as 64 lowercase hexadecimal
  characters, and \<open>verify_pow\<close> on the unmodified challenge, with any nonce, in any state and
  at any time, neither answers \<open>Invalid PoW signature.\<close> nor fails in the comparison.
\<close>

theorem pow_issue_verify_signature:
  "pc_signature (generate_pow_challenge env random_bytes now difficulty) =
     hexdigest (hmac_sha256 env (POW_SERVER_SECRET env)
       (pc_salt (generate_pow_challenge env random_bytes now difficulty) @ ''.'' @
        str_int (pc_difficulty (generate_pow_challenge env random_bytes now difficulty)) @ ''.'' @
        str_int (pc_timestamp (generate_pow_challenge env random_bytes now difficulty)))) \<and>
   pc_difficulty (generate_pow_challenge env random_bytes now difficulty) = difficulty \<and>
   length (pc_signature (generate_pow_challenge env random_bytes now difficulty)) = 64 \<and>
   is_lower_hex (pc_signature (generate_pow_challenge env random_bytes now difficulty)) \<and>
   fst (verify_pow env clock ledger
          (pc_salt (generate_pow_challenge env random_bytes now difficulty))
          (pc_difficulty (generate_pow_challenge env random_bytes now difficulty))
          (pc_timestamp (generate_pow_challenge env random_bytes now difficulty))
          (pc_signature (generate_pow_challenge env random_bytes now difficulty)) nonce)
     \<noteq> Inr (Some ''Invalid PoW signature.'') \<and>
   fst (verify_pow env clock ledger
          (pc_salt (generate_pow_challenge env random_bytes now difficulty))
          (pc_difficulty (generate_pow_challenge env random_bytes now difficulty))
          (pc_timestamp (generate_pow_challenge env random_bytes now difficulty))
          (pc_signature (generate_pow_challenge env random_bytes now difficulty)) nonce)
     \<noteq> Inl TypeError"
proof -
  define c where "c = generate_pow_challenge env random_bytes now difficulty"
  define expected where
    "expected = hexdigest (hmac_sha256 env (POW_SERVER_SECRET env)
        (pow_payload (pc_salt c) (pc_difficulty c) (pc_timestamp c)))"
  have sig: "pc_signature c = expected"
    by (simp add: c_def expected_def generate_pow_challenge_def Let_def)
  have dif: "pc_difficulty c = difficulty"
    by (simp add: c_def generate_pow_challenge_def Let_def)
  have cmp: "compare_digest (pc_signature c) expected = Inr True"
    unfolding sig expected_def by (rule compare_digest_same) (rule hexdigest_props)
  have res: "fst (verify_pow env clock ledger (pc_salt c) (pc_difficulty c) (pc_timestamp c)
               (pc_signature c) nonce) \<noteq> Inr (Some ''Invalid PoW signature.'') \<and>
             fst (verify_pow env clock ledger (pc_salt c) (pc_difficulty c) (pc_timestamp c)
               (pc_signature c) nonce) \<noteq> Inl TypeError"
    using cmp unfolding expected_def
    by (simp add: verify_pow_def verify_pow_nonce_def Let_def split: option.split sum.split)
  show ?thesis
    using sig dif res hexdigest_props(1,2)
    unfolding c_def [symmetric] expected_def pow_payload_def by simp
qed

lemma int_of_float_add:
  "0 \<le> x \<Longrightarrow> x + real_of_int k \<le> y \<Longrightarrow> 0 \<le> k \<Longrightarrow> int_of_float x + k \<le> int_of_float y"
proof -
  assume a: "0 \<le> x" "x + real_of_int k \<le> y" "0 \<le> k"
  then have "0 \<le> y" by linarith
  moreover have "\<lfloor>x\<rfloor> + k \<le> \<lfloor>y\<rfloor>"
    using a(2) by (metis floor_add_int floor_mono)
  ultimately show ?thesis using a(1) by (simp add: int_of_float_def)
qed

text \<open>
  Claim C3. For every challenge that passes the signature check, \<open>verify_pow\<close> answers
  \<open>PoW challenge expired.\<close> exactly when \<open>age = int(now) - timestamp\<close> is negative or
  exceeds 300; in particular a challenge issued at a clock reading \<open>t\<close> (after the epoch)
  and presented at a reading of \<open>t + 301\<close> or later is rejected as expired.
\<close>

theorem verify_pow_freshness:
  assumes "compare_digest signature
             (hexdigest (hmac_sha256 env (POW_SERVER_SECRET env)
                (pow_payload salt difficulty timestamp))) = Inr True"
  shows "(fst (verify_pow env clock ledger salt difficulty timestamp signature nonce)
            = Inr (Some ''PoW challenge expired.'')
          \<longleftrightarrow> int_of_float (t_fresh clock) - timestamp < 0 \<or>
              int_of_float (t_fresh clock) - timestamp > 300) \<and>
         (0 \<le> t_issue \<and> timestamp = int_of_float t_issue \<and> t_issue + 301 \<le> t_fresh clock
          \<longrightarrow> fst (verify_pow env clock ledger salt difficulty timestamp signature nonce)
                = Inr (Some ''PoW challenge expired.''))"
proof -
  have iff: "fst (verify_pow env clock ledger salt difficulty timestamp signature nonce)
            = Inr (Some ''PoW challenge expired.'')
          \<longleftrightarrow> int_of_float (t_fresh clock) - timestamp < 0 \<or>
              int_of_float (t_fresh clock) - timestamp > 300"
    using assms
    by (simp add: verify_pow_def Let_def POW_CHALLENGE_TTL_def split: sum.split)
  have late: "int_of_float (t_fresh clock) - timestamp > 300"
    if "0 \<le> t_issue" "timestamp = int_of_float t_issue" "t_issue + 301 \<le> t_fresh clock"
    using int_of_float_add [of t_issue 301 "t_fresh clock"] that by simp
  from iff late show ?thesis by blast
qed

lemma issued_signature_passes:
  "compare_digest (pc_signature (generate_pow_challenge env random_bytes now difficulty))
     (hexdigest (hmac_sha256 env (POW_SERVER_SECRET env)
        (pow_payload (pc_salt (generate_pow_challenge env random_bytes now difficulty))
           (pc_difficulty (generate_pow_challenge env random_bytes now difficulty))
           (pc_timestamp (generate_pow_challenge env random_bytes now difficulty))))) = Inr True"
  by (simp add: generate_pow_challenge_def Let_def compare_digest_same hexdigest_props)

lemma example_challenge_fields:
  "pc_timestamp example_challenge = 1740000000"
  "pc_difficulty example_challenge = 15"
  by (simp_all add: example_challenge_def generate_pow_challenge_def int_of_float_def Let_def)

lemma example_signature_passes:
  "compare_digest (pc_signature example_challenge)
     (hexdigest (hmac_sha256 example_env (POW_SERVER_SECRET example_env)
        (pow_payload (pc_salt example_challenge) 15 1740000000))) = Inr True"
  using issued_signature_passes [of example_env "replicate 16 171" "17400000002 / 10" 15]
  by (simp only: example_challenge_def [symmetric] example_challenge_fields)

theorem verify_pow_freshness_witness:
  "compare_digest (pc_signature example_challenge)
     (hexdigest (hmac_sha256 example_env (POW_SERVER_SECRET example_env)
        (pow_payload (pc_salt example_challenge) 15 1740000000))) = Inr True \<and>
   fst (verify_pow example_env (clock_from (17400003012 / 10)) Map.empty
          (pc_salt example_challenge) 15 1740000000 (pc_signature example_challenge) 12345)
     = Inr (Some ''PoW challenge expired.'') \<and>
   fst (verify_pow example_env (clock_from (17400003005 / 10)) Map.empty
          (pc_salt example_challenge) 15 1740000000 (pc_signature example_challenge) 12345)
     \<noteq> Inr (Some ''PoW challenge expired.'')"
  using
    verify_pow_freshness [OF example_signature_passes,
      where clock = "clock_from (17400003012 / 10)" and t_issue = "17400000002 / 10"
        and ledger = Map.empty and nonce = 12345]
    verify_pow_freshness [OF example_signature_passes,
      where clock = "clock_from (17400003005 / 10)" and t_issue = "17400000002 / 10"
        and ledger = Map.empty and nonce = 12345]
    example_signature_passes
  by (simp add: clock_from_def int_of_float_def)

lemma int_of_float_mono: "x \<le> y \<Longrightarrow> int_of_float x \<le> int_of_float y"
proof -
  assume xy: "x \<le> y"
  consider "0 \<le> x" | "x < 0" "0 \<le> y" | "y < 0" by linarith
  then show ?thesis
  proof cases
    case 1
    with xy show ?thesis by (simp add: int_of_float_def floor_mono)
  next
    case 2
    then have "\<lceil>x\<rceil> \<le> 0" "0 \<le> \<lfloor>y\<rfloor>" by (simp_all add: ceiling_le_zero)
    then have "\<lceil>x\<rceil> \<le> \<lfloor>y\<rfloor>" by linarith
    with 2 show ?thesis by (simp add: int_of_float_def)
  next
    case 3
    with xy show ?thesis by (simp add: int_of_float_def ceiling_mono)
  qed
qed

lemma verify_pow_accepts:
  assumes "compare_digest signature
             (hexdigest (hmac_sha256 env (POW_SERVER_SECRET env)
                (pow_payload salt difficulty timestamp))) = Inr True"
    and "0 \<le> int_of_float (t_fresh clock) - timestamp"
    and "int_of_float (t_fresh clock) - timestamp \<le> 300"
    and "purge_expired_nonces (t_purge clock) ledger (salt @ '':'' @ str_int nonce) = None"
    and "verify_pow_nonce env salt difficulty nonce = Inr True"
  shows "verify_pow env clock ledger salt difficulty timestamp signature nonce =
           (Inr None,
            (purge_expired_nonces (t_purge clock) ledger)
              (salt @ '':'' @ str_int nonce \<mapsto> t_burn clock + 300))"
  using assms by (simp add: verify_pow_def Let_def POW_CHALLENGE_TTL_def)

lemma verify_pow_replay_rejected:
  assumes "compare_digest signature
             (hexdigest (hmac_sha256 env (POW_SERVER_SECRET env)
                (pow_payload salt difficulty timestamp))) = Inr True"
    and "0 \<le> int_of_float (t_fresh clock) - timestamp"
    and "int_of_float (t_fresh clock) - timestamp \<le> 300"
    and "ledger (salt @ '':'' @ str_int nonce) = Some expiry"
    and "t_purge clock < expiry"
  shows "fst (verify_pow env clock ledger salt difficulty timestamp signature nonce) =
           Inr (Some ''PoW nonce already used.'')"
  using assms by (simp add: verify_pow_def Let_def POW_CHALLENGE_TTL_def purge_expired_nonces_def)

text \<open>
  The whole round trip: a challenge as issued, presented while fresh with a nonce that
  solves it and that the ledger does not hold, verifies.
\<close>

lemma issued_challenge_verifies:
  assumes "0 \<le> int_of_float (t_fresh clock) - int_of_float now"
    and "int_of_float (t_fresh clock) - int_of_float now \<le> 300"
    and "purge_expired_nonces (t_purge clock) ledger
           (bytes_hex random_bytes @ '':'' @ str_int nonce) = None"
    and "verify_pow_nonce env (bytes_hex random_bytes) difficulty nonce = Inr True"
  shows "fst (verify_pow env clock ledger
                (pc_salt (generate_pow_challenge env random_bytes now difficulty))
                (pc_difficulty (generate_pow_challenge env random_bytes now difficulty))
                (pc_timestamp (generate_pow_challenge env random_bytes now difficulty))
                (pc_signature (generate_pow_challenge env random_bytes now difficulty))
                nonce) = Inr None"
proof -
  have f: "pc_salt (generate_pow_challenge env random_bytes now difficulty) =
             bytes_hex random_bytes"
    "pc_difficulty (generate_pow_challenge env random_bytes now difficulty) = difficulty"
    "pc_timestamp (generate_pow_challenge env random_bytes now difficulty) = int_of_float now"
    by (simp_all add: generate_pow_challenge_def Let_def)
  show ?thesis
    using verify_pow_accepts [OF issued_signature_passes [of env random_bytes now difficulty],
        of clock ledger nonce] assms
    by (simp add: f)
qed

text \<open>
  Claim C1 fails on the code. A nonce burned at time \<open>b\<close> stays in the ledger until
  \<open>b + 300\<close>, while the challenge stays fresh as long as \<open>int(now) - timestamp \<le> 300\<close>,
  that is until just before \<open>timestamp + 301\<close>. When the first verification burns the
  nonce less than a second after the timestamp, a second verification of the same
  \<open>(salt, nonce)\<close> pair after the ledger entry has been purged and before the challenge
  expires succeeds again, with the clock only moving forward.
\<close>

theorem verify_pow_replay_window:
  assumes "compare_digest signature
             (hexdigest (hmac_sha256 env (POW_SERVER_SECRET env)
                (pow_payload salt difficulty timestamp))) = Inr True"
    and "verify_pow_nonce env salt difficulty nonce = Inr True"
    and "ledger (salt @ '':'' @ str_int nonce) = None"
    and "0 \<le> int_of_float (t_fresh c1) - timestamp"
    and "t_fresh c1 \<le> t_purge c1" "t_purge c1 \<le> t_burn c1" "t_burn c1 \<le> t_fresh c2"
    and "t_fresh c2 \<le> t_purge c2" "t_purge c2 \<le> t_burn c2"
    and "int_of_float (t_fresh c2) - timestamp \<le> 300"
    and "t_burn c1 + 300 \<le> t_purge c2"
  shows "fst (verify_pow env c1 ledger salt difficulty timestamp signature nonce) = Inr None \<and>
         fst (verify_pow env c2
                (snd (verify_pow env c1 ledger salt difficulty timestamp signature nonce))
                salt difficulty timestamp signature nonce) = Inr None"
proof -
  let ?key = "salt @ '':'' @ str_int nonce"
  have le12: "int_of_float (t_fresh c1) \<le> int_of_float (t_fresh c2)"
    using assms(5-7) by (intro int_of_float_mono) linarith
  have fresh1: "int_of_float (t_fresh c1) - timestamp \<le> 300"
    using le12 assms(10) by linarith
  have fresh2: "0 \<le> int_of_float (t_fresh c2) - timestamp"
    using le12 assms(4) by linarith
  have unused: "purge_expired_nonces (t_purge c1) ledger ?key = None"
    using assms(3) by (simp add: purge_expired_nonces_def)
  have first: "verify_pow env c1 ledger salt difficulty timestamp signature nonce =
      (Inr None, (purge_expired_nonces (t_purge c1) ledger)(?key \<mapsto> t_burn c1 + 300))"
    using assms(1) assms(4) fresh1 unused assms(2) by (rule verify_pow_accepts)
  have purged: "purge_expired_nonces (t_purge c2)
      ((purge_expired_nonces (t_purge c1) ledger)(?key \<mapsto> t_burn c1 + 300)) ?key = None"
    using assms(11) by (simp add: purge_expired_nonces_def)
  have second: "fst (verify_pow env c2
      ((purge_expired_nonces (t_purge c1) ledger)(?key \<mapsto> t_burn c1 + 300))
      salt difficulty timestamp signature nonce) = Inr None"
    using verify_pow_accepts [OF assms(1) fresh2 assms(10) purged assms(2)] by simp
  from first second show ?thesis by simp
qed

lemma example_nonce_solves:
  "verify_pow_nonce example_env (pc_salt example_challenge) 15 12345 = Inr True"
proof -
  have "is_ascii (pc_salt example_challenge)"
    by (simp add: example_challenge_def generate_pow_challenge_def Let_def bytes_hex_props)
  then show ?thesis
    by (simp add: verify_pow_nonce_def example_env_def)
qed

theorem verify_pow_replay_example:
  "fst (verify_pow example_env (clock_from (17400000003 / 10)) Map.empty
          (pc_salt example_challenge) 15 1740000000 (pc_signature example_challenge) 12345)
     = Inr None \<and>
   fst (verify_pow example_env (clock_from (17400003005 / 10))
          (snd (verify_pow example_env (clock_from (17400000003 / 10)) Map.empty
                  (pc_salt example_challenge) 15 1740000000
                  (pc_signature example_challenge) 12345))
          (pc_salt example_challenge) 15 1740000000 (pc_signature example_challenge) 12345)
     = Inr None"
  by (rule verify_pow_replay_window [OF example_signature_passes example_nonce_solves])
     (simp_all add: clock_from_def int_of_float_def)

section \<open>Verification endpoint: proofs\<close>


lemma solved_value_attach [simp]:
  "solved_value (attach_telemetry s fp tr bh) = solved_value s"
  by (simp add: attach_telemetry_def Let_def split: option.split)


lemma verify_image_raises:
  "captcha_sessions st cid = Some s \<Longrightarrow>
   analysis_error B (attach_telemetry s fp tr bh) = Some e \<Longrightarrow>
   verify_image B st cid slider fp tr bh =
     (Inl e, st\<lparr>captcha_sessions := (captcha_sessions st)(cid := None)\<rparr>)"
  by (simp add: verify_image_def Let_def analyze_bot_risk_call_def)

text \<open>
  The tolerance test is decided on floats: for the target \<open>0.5\<close> the answer 530 is
  rejected, because \<open>0.53 - 0.5\<close> is a float just above the float \<open>0.03\<close>, and the answer
  529 is accepted.
\<close>

lemma video_tolerance_on_floats:
  "\<not> \<bar>double_round (1 / 2 - max 0 (min 1 (double_round (530 / 1000))))\<bar>
       \<le> double_round (3 / 100)"
  "\<bar>double_round (1 / 2 - max 0 (min 1 (double_round (529 / 1000))))\<bar>
       \<le> double_round (3 / 100)"
  by code_simp+

lemma verify_image_sessions:
  "captcha_sessions (snd (verify_image B st cid slider fp tr bh)) =
     (captcha_sessions st)(cid := None)"
  by (simp add: verify_image_def Let_def split: option.split sum.split)


lemma verify_video_live:
  assumes "video_captcha_sessions st cid = Some ch" "float_of_int slider = Inr f"
  shows "fst (verify_video_with analyze st cid slider fp tr bh) =
     (case analyze (video_temp_session (secret_target ch) fp tr bh) of
        Inl e \<Rightarrow> Inl e
      | Inr a \<Rightarrow>
          Inr (Resp_analysis
                 (\<bar>double_round (secret_target ch - max 0 (min 1 (double_round (f / 1000))))\<bar>
                    \<le> double_round (3 / 100) \<and> \<not> is_bot a) a))"
  using assms by (simp add: verify_video_with_def Let_def split: sum.split)


lemma verify_video_sessions:
  "captcha_sessions (snd (verify_video_with analyze st cid slider fp tr bh)) =
     captcha_sessions st"
  by (simp add: verify_video_with_def Let_def split: option.split sum.split)

lemma verify_captcha_gate_passed:
  assumes "req_captcha_id body = Some cid" "req_slider_value body = Some slider"
    and "pow_gate env clock st body = Some (Inr None, ledger)"
  shows "verify_captcha env B clock st body =
           answer_check B (st\<lparr>pow_used_nonces := ledger\<rparr>) body cid slider"
  using assms by (simp add: verify_captcha_def)

lemma verify_captcha_gate_closed:
  assumes "req_captcha_id body = None \<or> req_slider_value body = None \<or>
           (\<forall>ledger. pow_gate env clock st body \<noteq> Some (Inr None, ledger))"
  shows "captcha_sessions (snd (verify_captcha env B clock st body)) = captcha_sessions st \<and>
         video_captcha_sessions (snd (verify_captcha env B clock st body)) =
           video_captcha_sessions st"
  using assms
  by (auto simp: verify_captcha_def split: option.split prod.split sum.split)

lemma example_gate:
  assumes "req_pow_salt body = Some (pc_salt example_challenge)"
    and "req_pow_nonce body = Some 12345"
    and "req_pow_difficulty body = Some 15"
    and "req_pow_timestamp body = Some 1740000000"
    and "req_pow_signature body = Some (pc_signature example_challenge)"
    and "pow_used_nonces st = Map.empty"
  shows "pow_gate example_env (clock_from (17400000003 / 10)) st body =
           Some (Inr None,
                 (purge_expired_nonces (t_purge (clock_from (17400000003 / 10))) Map.empty)
                   (pc_salt example_challenge @ '':'' @ str_int 12345 \<mapsto>
                      t_burn (clock_from (17400000003 / 10)) + 300))"
proof -
  have "verify_pow example_env (clock_from (17400000003 / 10)) Map.empty
          (pc_salt example_challenge) 15 1740000000 (pc_signature example_challenge) 12345 =
        (Inr None,
         (purge_expired_nonces (t_purge (clock_from (17400000003 / 10))) Map.empty)
           (pc_salt example_challenge @ '':'' @ str_int 12345 \<mapsto>
              t_burn (clock_from (17400000003 / 10)) + 300))"
    by (rule verify_pow_accepts [OF example_signature_passes _ _ _ example_nonce_solves])
       (simp_all add: clock_from_def int_of_float_def purge_expired_nonces_def)
  with assms show ?thesis
    by (simp add: pow_gate_def)
qed

lemma example_request_mode: "request_mode B (example_request\<lparr>req_captcha_id := c\<rparr>) = ''image''"
  by (simp add: request_mode_def example_request_def py_str_def lower_def lower_char_def)




lemma answer_check_image_sessions:
  "request_mode B body \<noteq> ''video'' \<Longrightarrow>
   captcha_sessions (snd (answer_check B st body cid slider)) =
     (captcha_sessions st)(cid := None)"
  by (simp add: answer_check_def Let_def verify_image_sessions)

lemma answer_check_video_sessions:
  "request_mode B body = ''video'' \<Longrightarrow>
   captcha_sessions (snd (answer_check B st body cid slider)) = captcha_sessions st"
  by (simp add: answer_check_def Let_def verify_video_def verify_video_sessions)

text \<open>
  Claim C7, as amended. An image session is removed from the session store by a
  verification attempt naming its \<open>captcha_id\<close> that passes the field checks and the
  proof-of-work gate and is not in video mode, whether the attempt then succeeds or
  fails, and no other image session is touched. An attempt that is rejected before the
  answer check (a missing field, a proof-of-work error) or that is in video mode leaves
  the image sessions as they were.
\<close>

theorem image_session_consumed:
  "(req_captcha_id body = Some cid \<and> req_slider_value body = Some slider \<and>
    pow_gate env clock st body = Some (Inr None, ledger) \<and>
    request_mode B body \<noteq> ''video'' \<longrightarrow>
      captcha_sessions (snd (verify_captcha env B clock st body)) =
        (captcha_sessions st)(cid := None)) \<and>
   (req_captcha_id body = None \<or> req_slider_value body = None \<or>
    (\<forall>l. pow_gate env clock st body \<noteq> Some (Inr None, l)) \<or>
    request_mode B body = ''video'' \<longrightarrow>
      captcha_sessions (snd (verify_captcha env B clock st body)) = captcha_sessions st)"
proof -
  have a: "captcha_sessions (snd (verify_captcha env B clock st body)) =
        (captcha_sessions st)(cid := None)"
    if "req_captcha_id body = Some cid" "req_slider_value body = Some slider"
       "pow_gate env clock st body = Some (Inr None, ledger)"
       "request_mode B body \<noteq> ''video''"
    using that by (simp add: verify_captcha_gate_passed answer_check_image_sessions)
  have b: "captcha_sessions (snd (verify_captcha env B clock st body)) = captcha_sessions st"
    if "req_captcha_id body = None \<or> req_slider_value body = None \<or>
        (\<forall>l. pow_gate env clock st body \<noteq> Some (Inr None, l))"
    using verify_captcha_gate_closed [OF that] by simp
  have c: "captcha_sessions (snd (verify_captcha env B clock st body)) = captcha_sessions st"
    if v: "request_mode B body = ''video''"
  proof (cases "req_captcha_id body = None \<or> req_slider_value body = None \<or>
        (\<forall>l. pow_gate env clock st body \<noteq> Some (Inr None, l))")
    case True
    then show ?thesis by (rule b)
  next
    case False
    then obtain c s l where "req_captcha_id body = Some c" "req_slider_value body = Some s"
      "pow_gate env clock st body = Some (Inr None, l)"
      by auto
    then show ?thesis
      using v by (simp add: verify_captcha_gate_passed answer_check_video_sessions)
  qed
  from a b c show ?thesis by blast
qed

theorem missing_pow_field_keeps_session:
  "fst (verify_captcha example_env example_builtins (clock_from (17400000003 / 10))
          example_state (example_request\<lparr>req_pow_nonce := None\<rparr>)) =
     Inr (Resp_error ''Missing PoW fields.'') \<and>
   captcha_sessions (snd (verify_captcha example_env example_builtins
        (clock_from (17400000003 / 10)) example_state
        (example_request\<lparr>req_pow_nonce := None\<rparr>))) ''abc'' = Some (empty_session 42)"
  by (simp add: verify_captcha_def pow_gate_def example_request_def example_state_def)

theorem image_session_consumed_witness:
  "captcha_sessions example_state ''abc'' = Some (empty_session 42) \<and>
   captcha_sessions (snd (verify_captcha example_env example_builtins
        (clock_from (17400000003 / 10)) example_state example_request)) ''abc'' = None \<and>
   captcha_sessions (snd (verify_captcha example_env example_builtins
        (clock_from (17400000003 / 10)) example_state
        (example_request\<lparr>req_pow_nonce := None\<rparr>))) ''abc'' = Some (empty_session 42)"
proof -
  have gate1: "pow_gate example_env (clock_from (17400000003 / 10)) example_state
      example_request = Some (Inr None,
         (purge_expired_nonces (t_purge (clock_from (17400000003 / 10))) Map.empty)
           (pc_salt example_challenge @ '':'' @ str_int 12345 \<mapsto>
              t_burn (clock_from (17400000003 / 10)) + 300))"
    by (rule example_gate) (simp_all add: example_request_def example_state_def)
  have mode1: "request_mode example_builtins example_request \<noteq> ''video''"
    using example_request_mode [of example_builtins "Some ''abc''"]
    by (simp add: example_request_def)
  have id1: "req_captcha_id example_request = Some ''abc''"
    and sl1: "req_slider_value example_request = Some 42"
    and gate3: "pow_gate example_env (clock_from (17400000003 / 10)) example_state
      (example_request\<lparr>req_pow_nonce := None\<rparr>) = None"
    by (simp_all add: example_request_def pow_gate_def)
  have live: "captcha_sessions example_state ''abc'' = Some (empty_session 42)"
    by (simp add: example_state_def)
  have removed: "captcha_sessions (snd (verify_captcha example_env example_builtins
        (clock_from (17400000003 / 10)) example_state example_request)) ''abc'' = None"
    using image_session_consumed [of example_request "''abc''" 42 example_env
        "clock_from (17400000003 / 10)" example_state _ example_builtins]
      id1 sl1 gate1 mode1
    by simp
  have kept: "captcha_sessions (snd (verify_captcha example_env example_builtins
        (clock_from (17400000003 / 10)) example_state
        (example_request\<lparr>req_pow_nonce := None\<rparr>))) ''abc'' = Some (empty_session 42)"
    using image_session_consumed [of "example_request\<lparr>req_pow_nonce := None\<rparr>" undefined
        undefined example_env "clock_from (17400000003 / 10)" example_state undefined
        example_builtins]
      gate3 live
    by simp
  from live removed kept show ?thesis by simp
qed

lemma example_products:
  "double_round (7216568042898483 / 18014398509481984 * 1000) =
     3523714864696525 / 8796093022208"
  "double_round (3152519739159347 / 4503599627370496 * 1000) = 700"
  by code_simp+

lemma example_sliders:
  "float_of_int 401 = Inr 401" "float_of_int 700 = Inr 700"
  by code_simp+

lemma example_targets_in_range:
  "double_round (4 / 10) \<le> 7216568042898483 / 18014398509481984"
  "7216568042898483 / 18014398509481984 \<le> double_round (8 / 10)"
  "double_round (4 / 10) \<le> 3152519739159347 / 4503599627370496"
  "3152519739159347 / 4503599627370496 \<le> double_round (8 / 10)"
  unfolding double_values by simp_all

text \<open>
  Claim C8, as amended. In video-mode verification with a stored target between the
  floats \<open>0.4\<close> and \<open>0.8\<close>, the session handed to the risk analyzer has \<open>solved_value\<close>
  equal to \<open>int(target * 1000)\<close>: the float product truncated, a number between 400 and
  800 that is \<open>round(target * 1000)\<close> or one less. The response carries what the
  analyzer returns on that session, and an exception of the analyzer leaves the handler.
\<close>

theorem video_session_solved_value:
  assumes "video_captcha_sessions st cid = Some ch"
    and "double_round (4 / 10) \<le> secret_target ch"
    and "secret_target ch \<le> double_round (8 / 10)"
    and "float_of_int slider = Inr f"
  shows
    "(\<exists>ok. fst (verify_video_with analyze st cid slider fp tr bh) =
        (case analyze \<lparr>solved_value = \<lfloor>double_round (secret_target ch * 1000)\<rfloor>,
                        fingerprint = fp, trajectory = Some tr, behavior = bh\<rparr> of
           Inl e \<Rightarrow> Inl e
         | Inr a \<Rightarrow> Inr (Resp_analysis (ok \<and> \<not> is_bot a) a))) \<and>
     400 \<le> \<lfloor>double_round (secret_target ch * 1000)\<rfloor> \<and>
     \<lfloor>double_round (secret_target ch * 1000)\<rfloor> \<le> 800 \<and>
     py_round (double_round (secret_target ch * 1000)) - 1
       \<le> \<lfloor>double_round (secret_target ch * 1000)\<rfloor> \<and>
     \<lfloor>double_round (secret_target ch * 1000)\<rfloor>
       \<le> py_round (double_round (secret_target ch * 1000))"
proof -
  let ?p = "double_round (secret_target ch * 1000)"
  have lo: "400 \<le> secret_target ch * 1000"
    using assms(2) unfolding double_values by simp
  have hi: "secret_target ch * 1000 \<le> 3602879701896397 / 4503599627370496 * 1000"
    using assms(3) unfolding double_values by simp
  from target_product_range [OF lo hi] have r: "400 \<le> ?p" "?p \<le> 800" by simp_all
  have fl: "400 \<le> \<lfloor>?p\<rfloor>" "\<lfloor>?p\<rfloor> \<le> 800"
    using r by (simp_all add: le_floor_iff floor_le_iff)
  have tr: "int_of_float ?p = \<lfloor>?p\<rfloor>"
    using r(1) by (simp add: int_of_float_def)
  have sess: "video_temp_session (secret_target ch) fp tr bh =
      \<lparr>solved_value = \<lfloor>?p\<rfloor>, fingerprint = fp, trajectory = Some tr, behavior = bh\<rparr>"
    by (simp add: video_temp_session_def tr)
  have resp: "\<exists>ok. fst (verify_video_with analyze st cid slider fp tr bh) =
        (case analyze \<lparr>solved_value = \<lfloor>?p\<rfloor>, fingerprint = fp, trajectory = Some tr,
                        behavior = bh\<rparr> of
           Inl e \<Rightarrow> Inl e
         | Inr a \<Rightarrow> Inr (Resp_analysis (ok \<and> \<not> is_bot a) a))"
    unfolding verify_video_live [OF assms(1) assms(4)] sess by blast
  from resp fl py_round_bounds [of ?p] show ?thesis by simp
qed

theorem video_session_solved_value_witness:
  "video_captcha_sessions example_video_state ''v2'' =
     Some (example_video_challenge (3152519739159347 / 4503599627370496)) \<and>
   double_round (4 / 10) \<le> 3152519739159347 / 4503599627370496 \<and>
   3152519739159347 / 4503599627370496 \<le> double_round (8 / 10) \<and>
   float_of_int 700 = Inr 700 \<and>
   (\<exists>ok. fst (verify_video_with probe_analyzer example_video_state ''v2'' 700 None [] None) =
      Inr (Resp_analysis ok
             \<lparr>is_bot = False, confidence_score = 700, flags = [],
              details = \<lparr>fingerprint_present = False, trajectory_points = 0,
                         details_total_duration_ms = 0, movement_events = 0\<rparr>\<rparr>))"
proof -
  have live: "video_captcha_sessions example_video_state ''v2'' =
      Some (example_video_challenge (3152519739159347 / 4503599627370496))"
    by (simp add: example_video_state_def)
  have tg: "secret_target (example_video_challenge (3152519739159347 / 4503599627370496)) =
      3152519739159347 / 4503599627370496"
    by (simp add: example_video_challenge_def)
  have lo: "double_round (4 / 10) \<le>
      secret_target (example_video_challenge (3152519739159347 / 4503599627370496))"
    and hi: "secret_target (example_video_challenge (3152519739159347 / 4503599627370496))
      \<le> double_round (8 / 10)"
    unfolding tg by (rule example_targets_in_range)+
  have "\<exists>ok. fst (verify_video_with probe_analyzer example_video_state ''v2'' 700 None [] None) =
      Inr (Resp_analysis ok
             \<lparr>is_bot = False, confidence_score = 700, flags = [],
              details = \<lparr>fingerprint_present = False, trajectory_points = 0,
                         details_total_duration_ms = 0, movement_events = 0\<rparr>\<rparr>)"
    using video_session_solved_value [OF live lo hi example_sliders(2),
        of probe_analyzer None "[]" None]
    unfolding tg example_products
    by (simp add: probe_analyzer_def)
  with live example_targets_in_range(3,4) example_sliders(2) show ?thesis by simp
qed

theorem video_session_truncates:
  "fst (verify_video_with probe_analyzer example_video_state ''v1'' 401 None [] None) =
     Inr (Resp_analysis True
            \<lparr>is_bot = False, confidence_score = 400, flags = [],
             details = \<lparr>fingerprint_present = False, trajectory_points = 0,
                        details_total_duration_ms = 0, movement_events = 0\<rparr>\<rparr>) \<and>
   py_round (double_round (7216568042898483 / 18014398509481984 * 1000)) = 401 \<and>
   double_round (4 / 10) \<le> 7216568042898483 / 18014398509481984 \<and>
   7216568042898483 / 18014398509481984 \<le> double_round (8 / 10)"
proof -
  have live: "video_captcha_sessions example_video_state ''v1'' =
      Some (example_video_challenge (7216568042898483 / 18014398509481984))"
    by (simp add: example_video_state_def)
  have tg: "secret_target (example_video_challenge (7216568042898483 / 18014398509481984)) =
      7216568042898483 / 18014398509481984"
    by (simp add: example_video_challenge_def)
  have sv: "int_of_float (3523714864696525 / 8796093022208) = 400"
    by code_simp
  have sess: "video_temp_session (7216568042898483 / 18014398509481984) None [] None =
      \<lparr>solved_value = 400, fingerprint = None, trajectory = Some [], behavior = None\<rparr>"
    unfolding video_temp_session_def example_products sv by simp
  have rd: "py_round (3523714864696525 / 8796093022208) = 401"
    by code_simp
  have ok: "\<bar>double_round (7216568042898483 / 18014398509481984 -
                max 0 (min 1 (double_round (401 / 1000))))\<bar> \<le> double_round (3 / 100)"
    by code_simp
  have "fst (verify_video_with probe_analyzer example_video_state ''v1'' 401 None [] None) =
     Inr (Resp_analysis True
            \<lparr>is_bot = False, confidence_score = 400, flags = [],
             details = \<lparr>fingerprint_present = False, trajectory_points = 0,
                        details_total_duration_ms = 0, movement_events = 0\<rparr>\<rparr>)"
    unfolding verify_video_live [OF live example_sliders(1)] tg sess
    using ok
    by (simp add: probe_analyzer_def)
  moreover have "py_round (double_round (7216568042898483 / 18014398509481984 * 1000)) = 401"
    unfolding example_products by (rule rd)
  ultimately show ?thesis
    using example_targets_in_range(1,2) by blast
qed

end
